theory Spec2Isabelle
  imports Complex_Main
begin

section \<open>The ride-sharing engine of ride\_share2.py\<close>

text \<open>
  The objects of the program live in a store: one table per class, indexed by object
  identity (a natural number). A Python reference is such an index, so two references
  to one object see each other's writes. The clock reading of \<open>datetime.now()\<close> is an
  argument of the operation that reads it, and what an operation prints is part of its
  result. The classes are polymorphic in the type \<open>'n\<close> of numbers. In the first
  part numbers are real numbers and the arithmetic is exact, which is enough for what
  does not depend on how a sum or a distance is rounded. In the second part numbers are
  Python's ints and floats, and the arithmetic is that of the interpreter.
\<close>

type_synonym location = "real \<times> real"

record 'n vehicle =
  vehicle_type :: string
  license_plate :: string
  rate :: 'n
  status :: string

record 'n rider =
  rider_name :: string
  rider_email :: string
  rider_id :: nat
  rider_nid :: string
  rider_wallet :: 'n
  rider_current_location :: "'n \<times> 'n"
  rider_current_ride :: "nat option"

record 'n driver =
  driver_name :: string
  driver_email :: string
  driver_id :: nat
  driver_nid :: string
  driver_wallet :: 'n
  driver_current_location :: "'n \<times> 'n"
  driver_vehicle :: nat
  rating :: "int list"
  driver_current_ride :: "nat option"

record 'n ride =
  start_location :: "'n \<times> 'n"
  end_location :: "'n \<times> 'n"
  ride_driver :: "nat option"
  ride_rider :: nat
  ride_vehicle :: nat
  start_time :: "nat option"
  end_time :: "nat option"
  estimated_fare :: 'n

record 'n ride_request =
  request_rider :: nat
  destination :: "'n \<times> 'n"

record 'n store =
  riders :: "nat \<Rightarrow> 'n rider"
  drivers :: "nat \<Rightarrow> 'n driver"
  vehicles :: "nat \<Rightarrow> 'n vehicle"
  rides :: "nat \<Rightarrow> 'n ride"
  next_ride :: nat

text \<open>
  \<open>next_ride\<close> is the identity the next \<open>Ride(...)\<close> gets: creating a ride writes
  \<open>rides\<close> at that index and advances it, and nothing else moves it.
\<close>

datatype error = AttributeError | OverflowError | ValueError | TypeError

datatype 'n message =
  Ride_matched string 'n
  | No_available_driver_found
  | Ride_ended 'n
  | Not_enough_balance

subsection \<open>Geometry and fare\<close>

definition math_dist :: "location \<Rightarrow> location \<Rightarrow> real" where
  "math_dist p q = sqrt ((fst p - fst q)\<^sup>2 + (snd p - snd q)\<^sup>2)"

text \<open>Python's \<open>round\<close>: the nearest integer, a tie going to the even one.\<close>

definition round_half_even :: "real \<Rightarrow> int" where
  "round_half_even y =
     (let f = \<lfloor>y\<rfloor>; d = y - of_int f
      in if d < 1 / 2 then f else if 1 / 2 < d then f + 1
         else if even f then f else f + 1)"

definition py_round :: "real \<Rightarrow> nat \<Rightarrow> real" where
  "py_round x ndigits = of_int (round_half_even (x * 10 ^ ndigits)) / 10 ^ ndigits"

definition calculate_fare :: "real store \<Rightarrow> real ride \<Rightarrow> real" where
  "calculate_fare s r =
     (let distance = math_dist (start_location r) (end_location r)
      in py_round (distance * rate (vehicles s (ride_vehicle r))) 2)"

subsection \<open>Vehicle, Rider, Driver\<close>

definition start_drive :: "nat \<Rightarrow> 'n store \<Rightarrow> 'n store" where
  "start_drive v s = s\<lparr>vehicles := (vehicles s)(v := (vehicles s v)\<lparr>status := ''unavailable''\<rparr>)\<rparr>"

definition load_cash :: "nat \<Rightarrow> real \<Rightarrow> real store \<Rightarrow> real store" where
  "load_cash r amount s =
     (if amount > 0
      then s\<lparr>riders := (riders s)(r := (riders s r)\<lparr>rider_wallet := rider_wallet (riders s r) + amount\<rparr>)\<rparr>
      else s)"

definition update_location :: "nat \<Rightarrow> 'n \<times> 'n \<Rightarrow> 'n store \<Rightarrow> 'n store" where
  "update_location d loc s =
     s\<lparr>drivers := (drivers s)(d := (drivers s d)\<lparr>driver_current_location := loc\<rparr>)\<rparr>"

definition add_rating :: "nat \<Rightarrow> int \<Rightarrow> 'n store \<Rightarrow> 'n store" where
  "add_rating d rate' s =
     s\<lparr>drivers := (drivers s)(d := (drivers s d)\<lparr>rating := rating (drivers s d) @ [rate']\<rparr>)\<rparr>"

subsection \<open>Ride\<close>

text \<open>
  \<open>Ride.__init__\<close> sets the fields in the source's order and computes the fare last,
  from the fields just set; the new object gets the identity \<open>next_ride\<close>.
\<close>

definition Ride_init :: "location \<Rightarrow> location \<Rightarrow> nat \<Rightarrow> nat \<Rightarrow> real store \<Rightarrow> nat \<times> real store" where
  "Ride_init start_loc end_loc rider_ref vehicle_ref s =
     (let self = next_ride s;
          r = \<lparr>start_location = start_loc, end_location = end_loc, ride_driver = None,
               ride_rider = rider_ref, ride_vehicle = vehicle_ref,
               start_time = None, end_time = None, estimated_fare = 0\<rparr>;
          r' = r\<lparr>estimated_fare := calculate_fare s r\<rparr>
      in (self, s\<lparr>rides := (rides s)(self := r'), next_ride := Suc self\<rparr>))"

definition set_driver :: "nat \<Rightarrow> nat \<Rightarrow> 'n store \<Rightarrow> 'n store" where
  "set_driver self d s = s\<lparr>rides := (rides s)(self := (rides s self)\<lparr>ride_driver := Some d\<rparr>)\<rparr>"

definition accept_ride :: "nat \<Rightarrow> nat \<Rightarrow> 'n store \<Rightarrow> 'n store" where
  "accept_ride d ride_ref s =
     set_driver ride_ref d
       (s\<lparr>drivers := (drivers s)(d := (drivers s d)\<lparr>driver_current_ride := Some ride_ref\<rparr>)\<rparr>)"

definition start_ride :: "nat \<Rightarrow> nat \<Rightarrow> 'n store \<Rightarrow> 'n store" where
  "start_ride self now s = s\<lparr>rides := (rides s)(self := (rides s self)\<lparr>start_time := Some now\<rparr>)\<rparr>"

text \<open>
  \<open>end_ride\<close> writes the end time first, then settles. With no driver set,
  \<open>self.driver.wallet\<close> raises AttributeError after the rider has been charged; the
  store returned is the one the exception leaves behind.
\<close>

definition end_ride :: "nat \<Rightarrow> int \<Rightarrow> nat \<Rightarrow> real store \<Rightarrow> (error + real message) \<times> real store" where
  "end_ride self rating' now s =
     (let s1 = s\<lparr>rides := (rides s)(self := (rides s self)\<lparr>end_time := Some now\<rparr>)\<rparr>;
          fare = estimated_fare (rides s1 self);
          r = ride_rider (rides s1 self)
      in if rider_wallet (riders s1 r) \<ge> fare
         then (let s2 = s1\<lparr>riders := (riders s1)(r := (riders s1 r)\<lparr>rider_wallet := rider_wallet (riders s1 r) - fare\<rparr>)\<rparr>
               in case ride_driver (rides s2 self) of
                    None \<Rightarrow> (Inl AttributeError, s2)
                  | Some d \<Rightarrow>
                      (let s3 = s2\<lparr>drivers := (drivers s2)(d := (drivers s2 d)\<lparr>driver_wallet := driver_wallet (drivers s2 d) + fare\<rparr>)\<rparr>;
                           s4 = add_rating d rating' s3
                       in (Inr (Ride_ended fare), s4)))
         else (Inr Not_enough_balance, s1))"

subsection \<open>RideMatching\<close>

definition available :: "'n store \<Rightarrow> nat \<Rightarrow> bool" where
  "available s d = (status (vehicles s (driver_vehicle (drivers s d))) = ''available'')"

text \<open>
  The loop of \<open>find_driver\<close> over the rest of the pool, with its two variables:
  \<open>closest_driver\<close> and \<open>min_distance\<close>, where \<open>None\<close> for the latter is
  \<open>float('inf')\<close>, above every distance.
\<close>

fun find_closest :: "real store \<Rightarrow> location \<Rightarrow> nat list \<Rightarrow> nat option \<Rightarrow> real option \<Rightarrow> nat option" where
  "find_closest s rider_location [] closest_driver min_distance = closest_driver"
| "find_closest s rider_location (d # ds) closest_driver min_distance =
     (if available s d
      then (let dist = math_dist (driver_current_location (drivers s d)) rider_location
            in if (case min_distance of None \<Rightarrow> True | Some m \<Rightarrow> dist < m)
               then find_closest s rider_location ds (Some d) (Some dist)
               else find_closest s rider_location ds closest_driver min_distance)
      else find_closest s rider_location ds closest_driver min_distance)"

definition find_driver :: "nat list \<Rightarrow> real ride_request \<Rightarrow> real store \<Rightarrow> (nat option \<times> real message) \<times> real store" where
  "find_driver available_drivers ride_request s =
     (let rider_location = rider_current_location (riders s (request_rider ride_request))
      in case find_closest s rider_location available_drivers None None of
           Some closest_driver \<Rightarrow>
             (let (ride_ref, s1) = Ride_init rider_location (destination ride_request)
                                     (request_rider ride_request)
                                     (driver_vehicle (drivers s closest_driver)) s;
                  s2 = accept_ride closest_driver ride_ref s1
              in ((Some ride_ref,
                   Ride_matched (driver_name (drivers s2 closest_driver))
                     (estimated_fare (rides s2 ride_ref))), s2))
         | None \<Rightarrow> ((None, No_available_driver_found), s))"

definition request_ride :: "nat \<Rightarrow> location \<Rightarrow> nat list \<Rightarrow> real store \<Rightarrow> real message list \<times> real store" where
  "request_ride self dest available_drivers s =
     (if rider_current_ride (riders s self) = None
      then (let ((result, msg), s1) =
                  find_driver available_drivers \<lparr>request_rider = self, destination = dest\<rparr> s
            in ([msg], s1\<lparr>riders := (riders s1)(self := (riders s1 self)\<lparr>rider_current_ride := result\<rparr>)\<rparr>))
      else ([], s))"


subsection \<open>Reading the lifecycle off a ride\<close>

text \<open>
  A \<open>Ride\<close> stores no status field. Its place in the lifecycle is read from the two
  timestamps: ended once \<open>end_time\<close> is set, started once \<open>start_time\<close> is set,
  created before that.
\<close>

datatype ride_state = Created | Started | Ended

definition ride_status :: "'n ride \<Rightarrow> ride_state" where
  "ride_status r =
     (if end_time r \<noteq> None then Ended else if start_time r \<noteq> None then Started else Created)"

subsection \<open>Sequences of calls\<close>

text \<open>
  A client of the engine, as the script at the end of the file, is a sequence of calls
  on riders, drivers and rides. A call that raises leaves its store to the next call.
\<close>

datatype action =
  Load_cash nat real
  | Request_ride nat location "nat list"
  | Start_ride nat nat
  | End_ride nat int nat
  | Update_location nat location
  | Start_drive nat

fun step :: "action \<Rightarrow> real store \<Rightarrow> real store" where
  "step (Load_cash r amount) s = load_cash r amount s"
| "step (Request_ride r dest pool) s = snd (request_ride r dest pool s)"
| "step (Start_ride self now) s = start_ride self now s"
| "step (End_ride self rating' now) s = snd (end_ride self rating' now s)"
| "step (Update_location d loc) s = update_location d loc s"
| "step (Start_drive v) s = start_drive v s"

fun run :: "action list \<Rightarrow> real store \<Rightarrow> real store" where
  "run [] s = s"
| "run (a # as) s = run as (step a s)"

subsection \<open>The scenario of the script\<close>

text \<open>
  The objects the script at the end of the file builds: rider Alice at (10, 10) with
  500 in her wallet, driver Bob at (11, 10) with a car, driver John at (20, 30) with a
  bike. Identity 0 is Alice, Bob and the car; every other identity is a second rider
  Carol at (12, 10), John and the bike. The destination (13, 14) is at distance 5 from
  Alice, a fare of 75 by car.
\<close>

definition car :: "real vehicle" where
  "car = \<lparr>vehicle_type = ''car'', license_plate = ''CAR-123'', rate = 15, status = ''available''\<rparr>"

definition bike :: "real vehicle" where
  "bike = \<lparr>vehicle_type = ''bike'', license_plate = ''BIKE-456'', rate = 8, status = ''available''\<rparr>"

definition alice :: "real rider" where
  "alice = \<lparr>rider_name = ''Alice'', rider_email = ''alice@email.com'', rider_id = 1,
            rider_nid = ''1234'', rider_wallet = 500, rider_current_location = (10, 10),
            rider_current_ride = None\<rparr>"

definition carol :: "real rider" where
  "carol = \<lparr>rider_name = ''Carol'', rider_email = ''carol@email.com'', rider_id = 4,
            rider_nid = ''1112'', rider_wallet = 500, rider_current_location = (12, 10),
            rider_current_ride = None\<rparr>"

definition bob :: "real driver" where
  "bob = \<lparr>driver_name = ''Bob'', driver_email = ''bob@email.com'', driver_id = 2,
          driver_nid = ''5678'', driver_wallet = 0, driver_current_location = (11, 10),
          driver_vehicle = 0, rating = [], driver_current_ride = None\<rparr>"

definition john :: "real driver" where
  "john = \<lparr>driver_name = ''John'', driver_email = ''john@email.com'', driver_id = 3,
           driver_nid = ''8910'', driver_wallet = 0, driver_current_location = (20, 30),
           driver_vehicle = 1, rating = [], driver_current_ride = None\<rparr>"

definition no_ride :: "real ride" where
  "no_ride = \<lparr>start_location = (0, 0), end_location = (0, 0), ride_driver = None,
              ride_rider = 0, ride_vehicle = 0, start_time = None, end_time = None,
              estimated_fare = 0\<rparr>"

definition demo :: "real store" where
  "demo = \<lparr>riders = (\<lambda>_. carol)(0 := alice), drivers = (\<lambda>_. john)(0 := bob),
            vehicles = (\<lambda>_. bike)(0 := car), rides = (\<lambda>_. no_ride), next_ride = 0\<rparr>"

text \<open>The ride Alice gets for the destination (13, 14), and the store holding it.\<close>

definition alice_ride :: "real ride" where
  "alice_ride = \<lparr>start_location = (10, 10), end_location = (13, 14), ride_driver = Some 0,
                 ride_rider = 0, ride_vehicle = 0, start_time = None, end_time = None,
                 estimated_fare = 75\<rparr>"

definition requested :: "real store" where
  "requested = \<lparr>riders = (\<lambda>_. carol)(0 := alice\<lparr>rider_current_ride := Some 0\<rparr>),
                 drivers = (\<lambda>_. john)(0 := bob\<lparr>driver_current_ride := Some 0\<rparr>),
                 vehicles = (\<lambda>_. bike)(0 := car), rides = (\<lambda>_. no_ride)(0 := alice_ride),
                 next_ride = 1\<rparr>"

definition started :: "real store" where
  "started = start_ride 0 1 requested"

text \<open>The same ride when Alice has only 50 in her wallet.\<close>

definition started_poor :: "real store" where
  "started_poor = started\<lparr>riders := (\<lambda>_. carol)(0 := alice\<lparr>rider_wallet := 50, rider_current_ride := Some 0\<rparr>)\<rparr>"

text \<open>The same ride when \<open>start_drive\<close> has been called on the car before the ride ends.\<close>

definition started_reserved :: "real store" where
  "started_reserved = start_drive 0 started"

section \<open>The engine on Python's numbers\<close>

text \<open>
  The definitions above compute with real numbers. Python computes with ints, which are
  exact and unbounded, and with floats, which are doubles: a finite value, an infinity
  or NaN (the two zeros are not told apart here). A comparison of two numbers compares
  their values exactly, and is false as soon as one of them is NaN.
\<close>

datatype pyfloat = Fin real | PInf | NInf | NaN

datatype num = PyInt int | PyFloat pyfloat

fun fl_less :: "pyfloat \<Rightarrow> pyfloat \<Rightarrow> bool" where
  "fl_less (Fin a) (Fin b) = (a < b)"
| "fl_less (Fin a) PInf = True"
| "fl_less NInf (Fin b) = True"
| "fl_less NInf PInf = True"
| "fl_less _ _ = False"

fun to_value :: "num \<Rightarrow> pyfloat" where
  "to_value (PyInt i) = Fin (of_int i)"
| "to_value (PyFloat f) = f"

definition num_less :: "num \<Rightarrow> num \<Rightarrow> bool" where
  "num_less a b = fl_less (to_value a) (to_value b)"

definition num_le :: "num \<Rightarrow> num \<Rightarrow> bool" where
  "num_le a b = (fl_less (to_value a) (to_value b) \<or> (to_value a = to_value b \<and> to_value a \<noteq> NaN))"

text \<open>
  What the source leaves to the language and its library is a parameter of the model:
  \<open>math.dist\<close>, \<open>*\<close>, \<open>round\<close>, \<open>+\<close> and \<open>-\<close>, each returning a number or raising.
\<close>

record arith =
  lib_dist :: "num \<times> num \<Rightarrow> num \<times> num \<Rightarrow> error + num"
  lib_mul :: "num \<Rightarrow> num \<Rightarrow> error + num"
  lib_round :: "num \<Rightarrow> nat \<Rightarrow> error + num"
  lib_add :: "num \<Rightarrow> num \<Rightarrow> error + num"
  lib_sub :: "num \<Rightarrow> num \<Rightarrow> error + num"

subsection \<open>The methods that compute\<close>

definition calculate_fare_py :: "arith \<Rightarrow> num store \<Rightarrow> num ride \<Rightarrow> error + num" where
  "calculate_fare_py A s r =
     (case lib_dist A (start_location r) (end_location r) of
        Inl e \<Rightarrow> Inl e
      | Inr distance \<Rightarrow>
          (case lib_mul A distance (rate (vehicles s (ride_vehicle r))) of
             Inl e \<Rightarrow> Inl e
           | Inr product \<Rightarrow> lib_round A product 2))"

text \<open>A constructor that raises leaves no ride behind.\<close>

definition Ride_init_py ::
  "arith \<Rightarrow> num \<times> num \<Rightarrow> num \<times> num \<Rightarrow> nat \<Rightarrow> nat \<Rightarrow> num store \<Rightarrow> error + nat \<times> num store" where
  "Ride_init_py A start_loc end_loc rider_ref vehicle_ref s =
     (let self = next_ride s;
          r = \<lparr>start_location = start_loc, end_location = end_loc, ride_driver = None,
               ride_rider = rider_ref, ride_vehicle = vehicle_ref,
               start_time = None, end_time = None, estimated_fare = PyInt 0\<rparr>
      in case calculate_fare_py A s r of
           Inl e \<Rightarrow> Inl e
         | Inr fare \<Rightarrow>
             Inr (self, s\<lparr>rides := (rides s)(self := r\<lparr>estimated_fare := fare\<rparr>),
                         next_ride := Suc self\<rparr>))"

text \<open>
  \<open>load_cash\<close>: the result is the error raised, if any, and the store. An addition that
  raises leaves the wallet as it was.
\<close>

definition load_cash_py :: "arith \<Rightarrow> nat \<Rightarrow> num \<Rightarrow> num store \<Rightarrow> error option \<times> num store" where
  "load_cash_py A self amount s =
     (if num_less (PyInt 0) amount
      then (case lib_add A (rider_wallet (riders s self)) amount of
              Inl e \<Rightarrow> (Some e, s)
            | Inr w \<Rightarrow>
                (None, s\<lparr>riders := (riders s)(self := (riders s self)\<lparr>rider_wallet := w\<rparr>)\<rparr>))
      else (None, s))"

definition end_ride_py ::
  "arith \<Rightarrow> nat \<Rightarrow> int \<Rightarrow> nat \<Rightarrow> num store \<Rightarrow> (error + num message) \<times> num store" where
  "end_ride_py A self rating' now s =
     (let s1 = s\<lparr>rides := (rides s)(self := (rides s self)\<lparr>end_time := Some now\<rparr>)\<rparr>;
          fare = estimated_fare (rides s1 self);
          r = ride_rider (rides s1 self)
      in if num_le fare (rider_wallet (riders s1 r))
         then (case lib_sub A (rider_wallet (riders s1 r)) fare of
                 Inl e \<Rightarrow> (Inl e, s1)
               | Inr w \<Rightarrow>
                   (let s2 = s1\<lparr>riders := (riders s1)(r := (riders s1 r)\<lparr>rider_wallet := w\<rparr>)\<rparr>
                    in case ride_driver (rides s2 self) of
                         None \<Rightarrow> (Inl AttributeError, s2)
                       | Some d \<Rightarrow>
                           (case lib_add A (driver_wallet (drivers s2 d)) fare of
                              Inl e \<Rightarrow> (Inl e, s2)
                            | Inr dw \<Rightarrow>
                                (let s3 = s2\<lparr>drivers := (drivers s2)(d := (drivers s2 d)\<lparr>driver_wallet := dw\<rparr>)\<rparr>;
                                     s4 = add_rating d rating' s3
                                 in (Inr (Ride_ended fare), s4)))))
         else (Inr Not_enough_balance, s1))"

text \<open>
  The loop of \<open>find_driver\<close>, with \<open>min_distance\<close> a number that starts at
  \<open>float('inf')\<close>. A call of \<open>math.dist\<close> that raises ends the loop.
\<close>

fun find_closest_py ::
  "arith \<Rightarrow> num store \<Rightarrow> num \<times> num \<Rightarrow> nat list \<Rightarrow> nat option \<Rightarrow> num \<Rightarrow> error + nat option" where
  "find_closest_py A s rider_location [] closest_driver min_distance = Inr closest_driver"
| "find_closest_py A s rider_location (d # ds) closest_driver min_distance =
     (if available s d
      then (case lib_dist A (driver_current_location (drivers s d)) rider_location of
              Inl e \<Rightarrow> Inl e
            | Inr distance \<Rightarrow>
                if num_less distance min_distance
                then find_closest_py A s rider_location ds (Some d) distance
                else find_closest_py A s rider_location ds closest_driver min_distance)
      else find_closest_py A s rider_location ds closest_driver min_distance)"

definition find_driver_py ::
  "arith \<Rightarrow> nat list \<Rightarrow> num ride_request \<Rightarrow> num store \<Rightarrow> (error + nat option \<times> num message) \<times> num store" where
  "find_driver_py A available_drivers ride_request s =
     (let rider_location = rider_current_location (riders s (request_rider ride_request))
      in case find_closest_py A s rider_location available_drivers None (PyFloat PInf) of
           Inl e \<Rightarrow> (Inl e, s)
         | Inr None \<Rightarrow> (Inr (None, No_available_driver_found), s)
         | Inr (Some closest_driver) \<Rightarrow>
             (case Ride_init_py A rider_location (destination ride_request)
                     (request_rider ride_request)
                     (driver_vehicle (drivers s closest_driver)) s of
                Inl e \<Rightarrow> (Inl e, s)
              | Inr (ride_ref, s1) \<Rightarrow>
                  (let s2 = accept_ride closest_driver ride_ref s1
                   in (Inr (Some ride_ref,
                            Ride_matched (driver_name (drivers s2 closest_driver))
                              (estimated_fare (rides s2 ride_ref))), s2))))"

subsection \<open>Double-precision arithmetic\<close>

text \<open>
  The arithmetic of the interpreter. A real number is rounded to the nearest double, a
  tie going to the even significand of 53 bits, and to an infinity from \<open>2 ^ 1024\<close> on;
  below \<open>2 powi (- 1022)\<close> the doubles are \<open>2 powi (- 1074)\<close> apart.
\<close>

definition round_double :: "real \<Rightarrow> pyfloat" where
  "round_double x =
     (if x = 0 then Fin 0
      else (let e = max (\<lfloor>log 2 \<bar>x\<bar>\<rfloor> - 52) (- 1074);
                r = of_int (round_half_even (x / 2 powi e)) * 2 powi e
            in if 2 ^ 1024 \<le> \<bar>r\<bar> then (if 0 < x then PInf else NInf) else Fin r))"

text \<open>An int taking part in float arithmetic is converted first, and may be too large.\<close>

fun to_double :: "num \<Rightarrow> error + pyfloat" where
  "to_double (PyFloat f) = Inr f"
| "to_double (PyInt i) =
     (case round_double (of_int i) of Fin r \<Rightarrow> Inr (Fin r) | _ \<Rightarrow> Inl OverflowError)"

fun fl_neg :: "pyfloat \<Rightarrow> pyfloat" where
  "fl_neg (Fin a) = Fin (- a)"
| "fl_neg PInf = NInf"
| "fl_neg NInf = PInf"
| "fl_neg NaN = NaN"

fun fl_abs :: "pyfloat \<Rightarrow> pyfloat" where
  "fl_abs (Fin a) = Fin \<bar>a\<bar>"
| "fl_abs PInf = PInf"
| "fl_abs NInf = PInf"
| "fl_abs NaN = NaN"

fun fl_add :: "pyfloat \<Rightarrow> pyfloat \<Rightarrow> pyfloat" where
  "fl_add (Fin a) (Fin b) = round_double (a + b)"
| "fl_add NaN _ = NaN"
| "fl_add _ NaN = NaN"
| "fl_add PInf NInf = NaN"
| "fl_add NInf PInf = NaN"
| "fl_add PInf _ = PInf"
| "fl_add _ PInf = PInf"
| "fl_add NInf _ = NInf"
| "fl_add _ NInf = NInf"

definition fl_sub :: "pyfloat \<Rightarrow> pyfloat \<Rightarrow> pyfloat" where
  "fl_sub a b = fl_add a (fl_neg b)"

definition inf_times :: "real \<Rightarrow> pyfloat" where
  "inf_times b = (if b = 0 then NaN else if 0 < b then PInf else NInf)"

fun fl_mul :: "pyfloat \<Rightarrow> pyfloat \<Rightarrow> pyfloat" where
  "fl_mul (Fin a) (Fin b) = round_double (a * b)"
| "fl_mul NaN _ = NaN"
| "fl_mul _ NaN = NaN"
| "fl_mul PInf (Fin b) = inf_times b"
| "fl_mul (Fin a) PInf = inf_times a"
| "fl_mul NInf (Fin b) = inf_times (- b)"
| "fl_mul (Fin a) NInf = inf_times (- a)"
| "fl_mul PInf PInf = PInf"
| "fl_mul NInf NInf = PInf"
| "fl_mul PInf NInf = NInf"
| "fl_mul NInf PInf = NInf"

text \<open>
  \<open>+\<close>, \<open>-\<close> and \<open>*\<close>: exact on two ints, and the float operation on the two
  operands as doubles otherwise.
\<close>

definition float_op ::
  "(pyfloat \<Rightarrow> pyfloat \<Rightarrow> pyfloat) \<Rightarrow> num \<Rightarrow> num \<Rightarrow> error + num" where
  "float_op f a b =
     (case to_double a of
        Inl e \<Rightarrow> Inl e
      | Inr x \<Rightarrow> (case to_double b of Inl e \<Rightarrow> Inl e | Inr y \<Rightarrow> Inr (PyFloat (f x y))))"

fun python_add :: "num \<Rightarrow> num \<Rightarrow> error + num" where
  "python_add (PyInt a) (PyInt b) = Inr (PyInt (a + b))"
| "python_add a b = float_op fl_add a b"

fun python_sub :: "num \<Rightarrow> num \<Rightarrow> error + num" where
  "python_sub (PyInt a) (PyInt b) = Inr (PyInt (a - b))"
| "python_sub a b = float_op fl_sub a b"

fun python_mul :: "num \<Rightarrow> num \<Rightarrow> error + num" where
  "python_mul (PyInt a) (PyInt b) = Inr (PyInt (a * b))"
| "python_mul a b = float_op fl_mul a b"

text \<open>
  \<open>round(x, ndigits)\<close> with \<open>ndigits\<close> not negative: an int is returned as it is; a
  finite float is rounded in decimal, a tie going to the even digit, and the decimal
  result is converted to the nearest double; beyond 323 digits, and for an infinity or
  NaN, the float is returned as it is.
\<close>

fun python_round :: "num \<Rightarrow> nat \<Rightarrow> error + num" where
  "python_round (PyInt i) ndigits = Inr (PyInt i)"
| "python_round (PyFloat (Fin x)) ndigits =
     (if 323 < ndigits then Inr (PyFloat (Fin x))
      else (case round_double (of_int (round_half_even (x * 10 ^ ndigits)) / 10 ^ ndigits) of
              Fin r \<Rightarrow> Inr (PyFloat (Fin r))
            | _ \<Rightarrow> Inl OverflowError))"
| "python_round (PyFloat f) ndigits = Inr (PyFloat f)"

text \<open>
  \<open>math.dist\<close> on two points of the plane: the coordinates are converted to doubles,
  the two differences are taken in double arithmetic, and the result is an infinity if
  a difference is one, else NaN if a difference is one, else the root of the sum of the
  squares. The library computes that root with an error below one unit in the last
  place; it is taken here as rounded to the nearest double.
\<close>

fun norm2 :: "pyfloat \<Rightarrow> pyfloat \<Rightarrow> pyfloat" where
  "norm2 (Fin a) (Fin b) = round_double (sqrt (a\<^sup>2 + b\<^sup>2))"
| "norm2 PInf _ = PInf"
| "norm2 _ PInf = PInf"
| "norm2 _ _ = NaN"

definition python_dist :: "num \<times> num \<Rightarrow> num \<times> num \<Rightarrow> error + num" where
  "python_dist p q =
     (case to_double (fst p) of Inl e \<Rightarrow> Inl e | Inr px \<Rightarrow>
      case to_double (snd p) of Inl e \<Rightarrow> Inl e | Inr py \<Rightarrow>
      case to_double (fst q) of Inl e \<Rightarrow> Inl e | Inr qx \<Rightarrow>
      case to_double (snd q) of Inl e \<Rightarrow> Inl e | Inr qy \<Rightarrow>
        Inr (PyFloat (norm2 (fl_abs (fl_sub px qx)) (fl_abs (fl_sub py qy)))))"

definition python :: arith where
  "python = \<lparr>lib_dist = python_dist, lib_mul = python_mul, lib_round = python_round,
             lib_add = python_add, lib_sub = python_sub\<rparr>"

subsection \<open>The scenario of the script on Python's numbers\<close>

text \<open>
  The same objects with the numbers the script writes, all ints: wallets 500 and 0,
  rates 15 and 8, the coordinates. Identity 0 is Alice, Bob and the car; every other
  identity is Alice again, John and the bike.
\<close>

definition car_py :: "num vehicle" where
  "car_py = \<lparr>vehicle_type = ''car'', license_plate = ''CAR-123'', rate = PyInt 15,
             status = ''available''\<rparr>"

definition bike_py :: "num vehicle" where
  "bike_py = \<lparr>vehicle_type = ''bike'', license_plate = ''BIKE-456'', rate = PyInt 8,
              status = ''available''\<rparr>"

definition alice_py :: "num rider" where
  "alice_py = \<lparr>rider_name = ''Alice'', rider_email = ''alice@email.com'', rider_id = 1,
               rider_nid = ''1234'', rider_wallet = PyInt 500,
               rider_current_location = (PyInt 10, PyInt 10), rider_current_ride = None\<rparr>"

definition bob_py :: "num driver" where
  "bob_py = \<lparr>driver_name = ''Bob'', driver_email = ''bob@email.com'', driver_id = 2,
             driver_nid = ''5678'', driver_wallet = PyInt 0,
             driver_current_location = (PyInt 11, PyInt 10), driver_vehicle = 0,
             rating = [], driver_current_ride = None\<rparr>"

definition john_py :: "num driver" where
  "john_py = \<lparr>driver_name = ''John'', driver_email = ''john@email.com'', driver_id = 3,
              driver_nid = ''8910'', driver_wallet = PyInt 0,
              driver_current_location = (PyInt 20, PyInt 30), driver_vehicle = 1,
              rating = [], driver_current_ride = None\<rparr>"

definition no_ride_py :: "num ride" where
  "no_ride_py = \<lparr>start_location = (PyInt 0, PyInt 0), end_location = (PyInt 0, PyInt 0),
                 ride_driver = None, ride_rider = 0, ride_vehicle = 0, start_time = None,
                 end_time = None, estimated_fare = PyInt 0\<rparr>"

definition demo_py :: "num store" where
  "demo_py = \<lparr>riders = (\<lambda>_. alice_py), drivers = (\<lambda>_. john_py)(0 := bob_py),
              vehicles = (\<lambda>_. bike_py)(0 := car_py), rides = (\<lambda>_. no_ride_py),
              next_ride = 0\<rparr>"

text \<open>
  Alice's wallet once she has paid a fare of 75.0 out of her 500, which makes it the
  float 425.0, and a wallet holding the int \<open>2 ^ 1024\<close>.
\<close>

definition paid_py :: "num store" where
  "paid_py = demo_py\<lparr>riders := (\<lambda>_. alice_py\<lparr>rider_wallet := PyFloat (Fin 425)\<rparr>)\<rparr>"

definition huge_py :: "num store" where
  "huge_py = demo_py\<lparr>riders := (\<lambda>_. alice_py\<lparr>rider_wallet := PyInt (2 ^ 1024)\<rparr>)\<rparr>"

text \<open>
  Two drivers far from a rider at the origin: Bob at (134217728, 1) and John at
  (134217728, 0), all ints. And a lone driver Bob at \<open>(2 ^ 1023, 0)\<close> with the rider at
  \<open>(- (2 ^ 1023), 0)\<close>, the first coordinates being floats.
\<close>

definition far_py :: "num store" where
  "far_py = demo_py
     \<lparr>riders := (\<lambda>_. alice_py\<lparr>rider_current_location := (PyInt 0, PyInt 0)\<rparr>),
      drivers := (\<lambda>_. john_py\<lparr>driver_current_location := (PyInt 134217728, PyInt 0)\<rparr>)
                 (0 := bob_py\<lparr>driver_current_location := (PyInt 134217728, PyInt 1)\<rparr>)\<rparr>"

definition edge_py :: "num store" where
  "edge_py = demo_py
     \<lparr>riders := (\<lambda>_. alice_py\<lparr>rider_current_location := (PyFloat (Fin (- (2 ^ 1023))), PyInt 0)\<rparr>),
      drivers := (\<lambda>_. bob_py\<lparr>driver_current_location := (PyFloat (Fin (2 ^ 1023)), PyInt 0)\<rparr>)\<rparr>"

text \<open>
  The ride Alice gets in the scenario for the destination (13, 14), at distance 5.0 and
  so at the fare 75.0 by car, and the store once that ride is started at time 1.
\<close>

definition matched_py :: "num store" where
  "matched_py =
     snd (find_driver_py python [0, 1] \<lparr>request_rider = 0, destination = (PyInt 13, PyInt 14)\<rparr> demo_py)"

definition started_py :: "num store" where
  "started_py = start_ride 0 1 matched_py"

section \<open>Properties with exact arithmetic\<close>

subsection \<open>Evaluating the scenario\<close>

lemma sqrt_25: "sqrt 25 = 5"
  using real_sqrt_abs [of 5] by simp

lemma round_half_even_of_int: "round_half_even (of_int n) = n"
  by (simp add: round_half_even_def)

lemma py_round_7500: "py_round 75 2 = 75"
proof -
  have "(75::real) * 10\<^sup>2 = of_int 7500" by simp
  then have "round_half_even (75 * 10\<^sup>2) = 7500"
    using round_half_even_of_int [of 7500] by simp
  then show ?thesis by (simp add: py_round_def)
qed

lemma demo_available: "available demo d"
  by (simp add: available_def demo_def bob_def john_def car_def bike_def)

lemma demo_request_ride:
  "request_ride 0 (13, 14) [0, 1] demo = ([Ride_matched ''Bob'' 75], requested)"
  by (simp add: request_ride_def find_driver_def Ride_init_def accept_ride_def set_driver_def
      calculate_fare_def math_dist_def available_def demo_def requested_def alice_ride_def
      alice_def bob_def john_def car_def bike_def no_ride_def Let_def sqrt_25 py_round_7500
      fun_upd_twist)

subsection \<open>The loop of find\_driver\<close>

lemma find_closest_keeps_some: "find_closest s loc xs (Some d) m \<noteq> None"
  by (induction xs arbitrary: d m) (simp_all add: Let_def)

lemma find_closest_none:
  "(find_closest s loc xs c None = None) = (c = None \<and> (\<forall>x\<in>set xs. \<not> available s x))"
  by (induction xs) (use find_closest_keeps_some in \<open>auto simp: Let_def\<close>)

lemma find_driver_some:
  assumes "find_closest s (rider_current_location (riders s (request_rider req))) pool None None = Some d"
  shows "fst (fst (find_driver pool req s)) = Some (next_ride s)
         \<and> ride_driver (rides (snd (find_driver pool req s)) (next_ride s)) = Some d"
  using assms
  by (simp add: find_driver_def Ride_init_def accept_ride_def set_driver_def Let_def)

subsection \<open>Dispatch\<close>

text \<open>
  Claim C9. Against a pool in which no driver's vehicle is available, \<open>find_driver\<close>
  reports the failure by returning \<open>None\<close> (with the message that no driver was found),
  creates no ride and leaves the store as it was: every rider, driver, vehicle and ride,
  and the identity of the next ride. \<open>request_ride\<close> leaves the store as it was, too.
\<close>

theorem find_driver_no_available_driver:
  assumes "\<forall>x\<in>set pool. \<not> available s x"
  shows "find_driver pool req s = ((None, No_available_driver_found), s)
         \<and> snd (request_ride r dest pool s) = s"
proof -
  have none: "find_closest s loc pool None None = None" for loc
    using assms by (simp add: find_closest_none)
  have fd: "find_driver pool q s = ((None, No_available_driver_found), s)" for q
    by (simp add: find_driver_def none)
  have "snd (request_ride r dest pool s) = s"
  proof (cases "rider_current_ride (riders s r) = None")
    case True
    then have "(riders s)(r := (riders s r)\<lparr>rider_current_ride := None\<rparr>) = riders s"
      by (metis fun_upd_triv rider.surjective rider.update_convs(7))
    then show ?thesis using True by (simp add: request_ride_def fd)
  next
    case False
    then show ?thesis by (auto simp: request_ride_def)
  qed
  with fd show ?thesis by simp
qed

text \<open>
  Once \<open>start_drive\<close> has run on the car and on the bike, no driver of the scenario is
  available.
\<close>

theorem find_driver_no_available_driver_witness:
  "\<not> available (start_drive 1 (start_drive 0 demo)) 0
   \<and> \<not> available (start_drive 1 (start_drive 0 demo)) 1
   \<and> find_driver [0, 1] \<lparr>request_rider = 0, destination = (13, 14)\<rparr> (start_drive 1 (start_drive 0 demo))
       = ((None, No_available_driver_found), start_drive 1 (start_drive 0 demo))
   \<and> snd (request_ride 0 (13, 14) [0, 1] (start_drive 1 (start_drive 0 demo)))
       = start_drive 1 (start_drive 0 demo)"
proof -
  have h0: "\<not> available (start_drive 1 (start_drive 0 demo)) 0"
    and h1: "\<not> available (start_drive 1 (start_drive 0 demo)) 1"
    by (simp_all add: available_def start_drive_def demo_def bob_def john_def)
  then have h: "\<forall>x\<in>set [0, 1]. \<not> available (start_drive 1 (start_drive 0 demo)) x"
    by simp
  show ?thesis
    using h0 h1
      find_driver_no_available_driver [OF h, of "\<lparr>request_rider = 0, destination = (13, 14)\<rparr>" 0 "(13, 14)"]
    by simp
qed

subsection \<open>What end\_ride writes\<close>

lemma end_ride_rides:
  "rides (snd (end_ride self rt now s)) =
     (rides s)(self := (rides s self)\<lparr>end_time := Some now\<rparr>)"
  by (simp add: end_ride_def add_rating_def Let_def split: option.split)

lemma end_ride_vehicles: "vehicles (snd (end_ride self rt now s)) = vehicles s"
  by (simp add: end_ride_def add_rating_def Let_def split: option.split)

lemma end_ride_next_ride: "next_ride (snd (end_ride self rt now s)) = next_ride s"
  by (simp add: end_ride_def add_rating_def Let_def split: option.split)

lemma end_ride_insufficient:
  assumes "rider_wallet (riders s (ride_rider (rides s self))) < estimated_fare (rides s self)"
  shows "end_ride self rt now s =
           (Inr Not_enough_balance,
            s\<lparr>rides := (rides s)(self := (rides s self)\<lparr>end_time := Some now\<rparr>)\<rparr>)"
  using assms by (simp add: end_ride_def Let_def)

lemma end_ride_settled:
  assumes "estimated_fare (rides s self) \<le> rider_wallet (riders s (ride_rider (rides s self)))"
    and "ride_driver (rides s self) = Some d"
  shows "fst (end_ride self rt now s) = Inr (Ride_ended (estimated_fare (rides s self)))"
    and "riders (snd (end_ride self rt now s)) =
           (riders s)(ride_rider (rides s self) := (riders s (ride_rider (rides s self)))
              \<lparr>rider_wallet := rider_wallet (riders s (ride_rider (rides s self))) - estimated_fare (rides s self)\<rparr>)"
    and "drivers (snd (end_ride self rt now s)) =
           (drivers s)(d := (drivers s d)
              \<lparr>driver_wallet := driver_wallet (drivers s d) + estimated_fare (rides s self),
               rating := rating (drivers s d) @ [rt]\<rparr>)"
  using assms by (simp_all add: end_ride_def add_rating_def Let_def)

subsection \<open>Ending a ride\<close>

lemma started_facts:
  "rides started 0 = alice_ride\<lparr>start_time := Some 1\<rparr>"
  "riders started 0 = alice\<lparr>rider_current_ride := Some 0\<rparr>"
  "drivers started 0 = bob\<lparr>driver_current_ride := Some 0\<rparr>"
  by (simp_all add: started_def start_ride_def requested_def)

lemma started_poor_facts:
  "rides started_poor 0 = alice_ride\<lparr>start_time := Some 1\<rparr>"
  "riders started_poor 0 = alice\<lparr>rider_wallet := 50, rider_current_ride := Some 0\<rparr>"
  "drivers started_poor 0 = bob\<lparr>driver_current_ride := Some 0\<rparr>"
  by (simp_all add: started_poor_def started_def start_ride_def requested_def)

text \<open>
  Claim C3, as the spec states it, fails: with a wallet below the fare \<open>end_ride\<close> makes
  no transfer, but it has written the end time before it looks at the wallet, so the
  ride is not left as it was. In the scenario with 50 in Alice's wallet and a fare of
  75, the started ride comes back with an end time, that is, ended.
\<close>

theorem end_ride_insufficient_funds_counterexample:
  "ride_status (rides started_poor 0) = Started
   \<and> rider_wallet (riders started_poor (ride_rider (rides started_poor 0)))
       < estimated_fare (rides started_poor 0)
   \<and> rides (snd (end_ride 0 5 2 started_poor)) 0 \<noteq> rides started_poor 0
   \<and> end_time (rides started_poor 0) = None
   \<and> end_time (rides (snd (end_ride 0 5 2 started_poor)) 0) = Some 2
   \<and> ride_status (rides (snd (end_ride 0 5 2 started_poor)) 0) = Ended"
proof -
  have r: "rides (snd (end_ride 0 5 2 started_poor)) 0
             = alice_ride\<lparr>start_time := Some 1, end_time := Some 2\<rparr>"
    by (simp add: end_ride_rides started_poor_facts)
  have "alice_ride\<lparr>start_time := Some 1, end_time := Some 2\<rparr> \<noteq> alice_ride\<lparr>start_time := Some 1\<rparr>"
    by (simp add: alice_ride_def)
  then show ?thesis
    by (simp add: r started_poor_facts ride_status_def alice_ride_def alice_def)
qed

text \<open>
  Claim C3, amended. With the rider's wallet strictly below the fare, \<open>end_ride\<close> takes
  its failing branch, which reports that the balance is not enough, and makes no
  transfer: every rider (so the rider's wallet), every driver (so the driver's wallet
  and ratings), every vehicle and every other ride are as before, and so is every field
  of the ride itself other than its end time.
\<close>

theorem end_ride_insufficient_funds:
  assumes "rider_wallet (riders s (ride_rider (rides s self))) < estimated_fare (rides s self)"
  shows "fst (end_ride self rt now s) = Inr Not_enough_balance
         \<and> riders (snd (end_ride self rt now s)) = riders s
         \<and> drivers (snd (end_ride self rt now s)) = drivers s
         \<and> vehicles (snd (end_ride self rt now s)) = vehicles s
         \<and> next_ride (snd (end_ride self rt now s)) = next_ride s
         \<and> (\<forall>x. x \<noteq> self \<longrightarrow> rides (snd (end_ride self rt now s)) x = rides s x)
         \<and> rides (snd (end_ride self rt now s)) self
             = (rides s self)\<lparr>end_time := end_time (rides (snd (end_ride self rt now s)) self)\<rparr>"
  by (simp add: end_ride_insufficient [OF assms])

theorem end_ride_insufficient_funds_witness:
  "rider_wallet (riders started_poor (ride_rider (rides started_poor 0)))
     < estimated_fare (rides started_poor 0)
   \<and> fst (end_ride 0 5 2 started_poor) = Inr Not_enough_balance
   \<and> rider_wallet (riders (snd (end_ride 0 5 2 started_poor)) 0) = 50
   \<and> driver_wallet (drivers (snd (end_ride 0 5 2 started_poor)) 0) = 0
   \<and> rating (drivers (snd (end_ride 0 5 2 started_poor)) 0) = []
   \<and> start_time (rides (snd (end_ride 0 5 2 started_poor)) 0) = Some 1"
proof -
  have h: "rider_wallet (riders started_poor (ride_rider (rides started_poor 0)))
             < estimated_fare (rides started_poor 0)"
    by (simp add: started_poor_facts alice_ride_def alice_def)
  have "start_time (rides (snd (end_ride 0 5 2 started_poor)) 0)
          = start_time ((rides started_poor 0)\<lparr>end_time := end_time (rides (snd (end_ride 0 5 2 started_poor)) 0)\<rparr>)"
    using end_ride_insufficient_funds [OF h, of 5 2] by simp
  then show ?thesis
    using h end_ride_insufficient_funds [OF h, of 5 2]
    by (simp add: started_poor_facts alice_ride_def alice_def bob_def)
qed

text \<open>
  Claim C5, as the spec states it, fails on both points of the release. A successful
  \<open>end_ride\<close> does not clear the driver's reference to the ride: in the scenario
  Bob's \<open>current_ride\<close> is still the ended ride after Alice has paid. And it does not
  make the vehicle available: when \<open>start_drive\<close> has marked the car unavailable
  before the ride ends, the car is still unavailable after Alice has paid.
\<close>

theorem end_ride_releases_driver_counterexample:
  "fst (end_ride 0 5 2 started) = Inr (Ride_ended 75)
   \<and> ride_driver (rides started 0) = Some 0
   \<and> ride_status (rides (snd (end_ride 0 5 2 started)) 0) = Ended
   \<and> driver_current_ride (drivers (snd (end_ride 0 5 2 started)) 0) = Some 0
   \<and> fst (end_ride 0 5 2 started_reserved) = Inr (Ride_ended 75)
   \<and> ride_driver (rides started_reserved 0) = Some 0
   \<and> ride_vehicle (rides started_reserved 0) = 0
   \<and> driver_vehicle (drivers started_reserved 0) = 0
   \<and> ride_status (rides (snd (end_ride 0 5 2 started_reserved)) 0) = Ended
   \<and> status (vehicles (snd (end_ride 0 5 2 started_reserved)) 0) = ''unavailable''
   \<and> \<not> available (snd (end_ride 0 5 2 started_reserved)) 0"
proof -
  have le: "estimated_fare (rides started 0) \<le> rider_wallet (riders started (ride_rider (rides started 0)))"
    and d: "ride_driver (rides started 0) = Some 0"
    by (simp_all add: started_facts alice_ride_def alice_def)
  have rides_r: "rides started_reserved = rides started"
    and riders_r: "riders started_reserved = riders started"
    and drivers_r: "drivers started_reserved = drivers started"
    by (simp_all add: started_reserved_def start_drive_def)
  have le_r: "estimated_fare (rides started_reserved 0)
                \<le> rider_wallet (riders started_reserved (ride_rider (rides started_reserved 0)))"
    and d_r: "ride_driver (rides started_reserved 0) = Some 0"
    using le d by (simp_all add: rides_r riders_r)
  have veh: "status (vehicles started_reserved 0) = ''unavailable''"
    by (simp add: started_reserved_def start_drive_def)
  have dv: "driver_vehicle (drivers (snd (end_ride 0 5 2 started_reserved)) 0) = 0"
    by (simp add: end_ride_settled(3) [OF le_r d_r] drivers_r started_facts bob_def)
  have first: "fst (end_ride 0 5 2 started) = Inr (Ride_ended 75)
      \<and> ride_driver (rides started 0) = Some 0
      \<and> ride_status (rides (snd (end_ride 0 5 2 started)) 0) = Ended
      \<and> driver_current_ride (drivers (snd (end_ride 0 5 2 started)) 0) = Some 0"
    by (simp add: end_ride_settled [OF le d] end_ride_rides ride_status_def
        started_facts alice_ride_def bob_def)
  have second: "fst (end_ride 0 5 2 started_reserved) = Inr (Ride_ended 75)
      \<and> ride_driver (rides started_reserved 0) = Some 0
      \<and> ride_vehicle (rides started_reserved 0) = 0
      \<and> driver_vehicle (drivers started_reserved 0) = 0
      \<and> ride_status (rides (snd (end_ride 0 5 2 started_reserved)) 0) = Ended"
    by (simp add: end_ride_settled(1) [OF le_r d_r] end_ride_rides ride_status_def
        rides_r drivers_r started_facts alice_ride_def bob_def)
  have third: "status (vehicles (snd (end_ride 0 5 2 started_reserved)) 0) = ''unavailable''
      \<and> \<not> available (snd (end_ride 0 5 2 started_reserved)) 0"
    using veh dv by (simp add: available_def end_ride_vehicles)
  from first second third show ?thesis by simp
qed

text \<open>
  Claim C5, amended. When \<open>end_ride\<close> settles (the wallet covers the fare and the ride
  has a driver), the ride has its end time recorded and is ended, and the driver is not
  released: every vehicle is as it was, so the driver's vehicle is available afterwards
  exactly when it was available before, and every driver's reference to an active ride
  is as it was, so the ride's driver still names the ride it was bound to.
\<close>

theorem end_ride_ends_without_release:
  assumes "estimated_fare (rides s self) \<le> rider_wallet (riders s (ride_rider (rides s self)))"
    and "ride_driver (rides s self) = Some d"
  shows "fst (end_ride self rt now s) = Inr (Ride_ended (estimated_fare (rides s self)))
         \<and> end_time (rides (snd (end_ride self rt now s)) self) = Some now
         \<and> ride_status (rides (snd (end_ride self rt now s)) self) = Ended
         \<and> vehicles (snd (end_ride self rt now s)) = vehicles s
         \<and> driver_vehicle (drivers (snd (end_ride self rt now s)) d') = driver_vehicle (drivers s d')
         \<and> available (snd (end_ride self rt now s)) d' = available s d'
         \<and> driver_current_ride (drivers (snd (end_ride self rt now s)) d')
             = driver_current_ride (drivers s d')"
  by (simp add: end_ride_settled [OF assms] end_ride_rides end_ride_vehicles ride_status_def
      available_def)

theorem end_ride_ends_without_release_witness:
  "estimated_fare (rides started 0) \<le> rider_wallet (riders started (ride_rider (rides started 0)))
   \<and> ride_driver (rides started 0) = Some 0
   \<and> fst (end_ride 0 5 2 started) = Inr (Ride_ended 75)
   \<and> end_time (rides (snd (end_ride 0 5 2 started)) 0) = Some 2
   \<and> ride_status (rides (snd (end_ride 0 5 2 started)) 0) = Ended
   \<and> driver_current_ride (drivers (snd (end_ride 0 5 2 started)) 0) = Some 0
   \<and> available started 0
   \<and> available (snd (end_ride 0 5 2 started)) 0
   \<and> vehicles (snd (end_ride 0 5 2 started)) = vehicles started"
proof -
  have le: "estimated_fare (rides started 0) \<le> rider_wallet (riders started (ride_rider (rides started 0)))"
    and d: "ride_driver (rides started 0) = Some 0"
    by (simp_all add: started_facts alice_ride_def alice_def)
  have av: "available started 0"
    by (simp add: available_def started_def start_ride_def requested_def bob_def car_def)
  show ?thesis
    using le d av end_ride_ends_without_release [OF le d, of 5 2 0]
    by (simp add: started_facts alice_ride_def bob_def)
qed




subsection \<open>Lifecycle\<close>

lemma requested_facts:
  "rides requested 0 = alice_ride"
  "riders requested 0 = alice\<lparr>rider_current_ride := Some 0\<rparr>"
  "drivers requested 0 = bob\<lparr>driver_current_ride := Some 0\<rparr>"
  by (simp_all add: requested_def)

text \<open>
  Claim C7, as the spec states it, fails: neither call looks at the ride's state. In the
  scenario, \<open>start_ride\<close> on the ride already started at time 1 goes through and
  overwrites the start time with 2; \<open>end_ride\<close> on the ride not yet started goes
  through as well, settles the fare and leaves the ride ended, a step from created to
  ended.
\<close>

theorem lifecycle_guard_counterexample:
  "ride_status (rides started 0) = Started
   \<and> start_time (rides started 0) = Some 1
   \<and> start_time (rides (start_ride 0 2 started) 0) = Some 2
   \<and> rides (start_ride 0 2 started) 0 \<noteq> rides started 0
   \<and> ride_status (rides requested 0) = Created
   \<and> fst (end_ride 0 5 2 requested) = Inr (Ride_ended 75)
   \<and> ride_status (rides (snd (end_ride 0 5 2 requested)) 0) = Ended"
proof -
  have le: "estimated_fare (rides requested 0) \<le> rider_wallet (riders requested (ride_rider (rides requested 0)))"
    and d: "ride_driver (rides requested 0) = Some 0"
    by (simp_all add: requested_facts alice_ride_def alice_def)
  have "alice_ride\<lparr>start_time := Some 2\<rparr> \<noteq> alice_ride\<lparr>start_time := Some 1\<rparr>"
    by (simp add: alice_ride_def)
  then show ?thesis
    by (simp add: end_ride_settled(1) [OF le d] end_ride_rides start_ride_def started_facts
        requested_facts ride_status_def alice_ride_def)
qed

text \<open>
  Claim C7, amended. \<open>start_ride\<close> and \<open>end_ride\<close> check no state and have no
  transition error. On a ride in any state \<open>start_ride\<close> records the clock as the start
  time and changes nothing else in the store; on a ride in any state \<open>end_ride\<close>
  records the clock as the end time, which leaves the ride ended, before it settles.
  Called in order they take a ride from created to started and from started to ended.
\<close>

theorem start_ride_end_ride_unguarded:
  "rides (start_ride self now s) = (rides s)(self := (rides s self)\<lparr>start_time := Some now\<rparr>)
   \<and> riders (start_ride self now s) = riders s
   \<and> drivers (start_ride self now s) = drivers s
   \<and> vehicles (start_ride self now s) = vehicles s
   \<and> next_ride (start_ride self now s) = next_ride s
   \<and> rides (snd (end_ride self rt now s)) = (rides s)(self := (rides s self)\<lparr>end_time := Some now\<rparr>)
   \<and> ride_status (rides (snd (end_ride self rt now s)) self) = Ended
   \<and> (ride_status (rides s self) = Created \<longrightarrow>
        ride_status (rides (start_ride self now s) self) = Started)
   \<and> (ride_status (rides s self) = Started \<longrightarrow>
        ride_status (rides (snd (end_ride self rt now s)) self) = Ended)"
  by (simp add: start_ride_def end_ride_rides ride_status_def)

theorem start_ride_end_ride_unguarded_witness:
  "ride_status (rides requested 0) = Created
   \<and> ride_status (rides (start_ride 0 1 requested) 0) = Started
   \<and> ride_status (rides started 0) = Started
   \<and> ride_status (rides (snd (end_ride 0 5 2 started)) 0) = Ended
   \<and> start_time (rides (start_ride 0 2 started) 0) = Some 2"
proof -
  have c: "ride_status (rides requested 0) = Created"
    by (simp add: requested_facts ride_status_def alice_ride_def)
  have st: "ride_status (rides started 0) = Started"
    by (simp add: started_facts ride_status_def alice_ride_def)
  show ?thesis
    using c st start_ride_end_ride_unguarded [of 0 1 requested 5]
      start_ride_end_ride_unguarded [of 0 2 started 5]
    by (simp add: started_facts requested_facts ride_status_def alice_ride_def)
qed

subsection \<open>The rider's wallet over a sequence of calls\<close>

lemma find_driver_riders: "riders (snd (find_driver pool req s)) = riders s"
  by (simp add: find_driver_def Ride_init_def accept_ride_def set_driver_def Let_def
      split: option.split)

lemma request_ride_wallet:
  "rider_wallet (riders (snd (request_ride x dest pool s)) r) = rider_wallet (riders s r)"
proof (cases "rider_current_ride (riders s x) = None")
  case True
  obtain res msg s1 where fd: "find_driver pool \<lparr>request_rider = x, destination = dest\<rparr> s = ((res, msg), s1)"
    by (metis surj_pair)
  then have "riders s1 = riders s"
    using find_driver_riders [of pool "\<lparr>request_rider = x, destination = dest\<rparr>" s] by simp
  then show ?thesis using True fd by (simp add: request_ride_def)
next
  case False
  then show ?thesis by (auto simp: request_ride_def)
qed

lemma end_ride_wallet_nonneg:
  assumes "0 \<le> rider_wallet (riders s r)"
  shows "0 \<le> rider_wallet (riders (snd (end_ride self rt now s)) r)"
  using assms by (simp add: end_ride_def add_rating_def Let_def split: option.split)

lemma step_wallet_nonneg:
  assumes "0 \<le> rider_wallet (riders s r)"
  shows "0 \<le> rider_wallet (riders (step a s) r)"
proof (cases a)
  case (Load_cash x amount)
  then show ?thesis using assms by (auto simp: load_cash_def)
next
  case (Request_ride x dest pool)
  then show ?thesis using assms by (simp add: request_ride_wallet)
next
  case (Start_ride x now)
  then show ?thesis using assms by (simp add: start_ride_def)
next
  case (End_ride x rt now)
  then show ?thesis using assms by (simp add: end_ride_wallet_nonneg)
next
  case (Update_location d loc)
  then show ?thesis using assms by (simp add: update_location_def)
next
  case (Start_drive v)
  then show ?thesis using assms by (simp add: start_drive_def)
qed

lemma run_wallet_nonneg:
  "0 \<le> rider_wallet (riders s r) \<Longrightarrow> 0 \<le> rider_wallet (riders (run acts s) r)"
  by (induction acts arbitrary: s) (simp_all add: step_wallet_nonneg)

text \<open>
  Claim C8. A rider's wallet that is not negative stays so through every sequence of
  calls on the engine (cash loads, requests, starts, settlements, in any order and on
  any rides), at the end and after every call on the way. A settlement touches a wallet
  only when the rider's wallet is at least the fare; below the fare it takes the
  failing branch, which reports that the balance is not enough and leaves every rider
  as before.
\<close>

theorem rider_wallet_never_negative:
  assumes "0 \<le> rider_wallet (riders s r)"
  shows "(\<forall>n. 0 \<le> rider_wallet (riders (run (take n acts) s) r))
         \<and> 0 \<le> rider_wallet (riders (run acts s) r)
         \<and> (rider_wallet (riders s (ride_rider (rides s self))) < estimated_fare (rides s self) \<longrightarrow>
              fst (end_ride self rt now s) = Inr Not_enough_balance
              \<and> riders (snd (end_ride self rt now s)) = riders s)
         \<and> (riders (snd (end_ride self rt now s)) \<noteq> riders s \<longrightarrow>
              estimated_fare (rides s self) \<le> rider_wallet (riders s (ride_rider (rides s self))))"
proof -
  have "riders (snd (end_ride self rt now s)) = riders s"
    if "rider_wallet (riders s (ride_rider (rides s self))) < estimated_fare (rides s self)"
    using that by (simp add: end_ride_insufficient)
  moreover have "fst (end_ride self rt now s) = Inr Not_enough_balance"
    if "rider_wallet (riders s (ride_rider (rides s self))) < estimated_fare (rides s self)"
    using that by (simp add: end_ride_insufficient)
  ultimately show ?thesis
    using run_wallet_nonneg [OF assms] by (meson not_le)
qed

text \<open>
  With 50 in her wallet Alice cannot pay the fare of 75: the first settlement fails, she
  loads 30, the second settlement goes through and leaves 5.
\<close>

theorem rider_wallet_never_negative_witness:
  "0 \<le> rider_wallet (riders started_poor 0)
   \<and> rider_wallet (riders started_poor (ride_rider (rides started_poor 0))) < estimated_fare (rides started_poor 0)
   \<and> fst (end_ride 0 5 2 started_poor) = Inr Not_enough_balance
   \<and> rider_wallet (riders (run [End_ride 0 5 2] started_poor) 0) = 50
   \<and> rider_wallet (riders (run [End_ride 0 5 2, Load_cash 0 30, End_ride 0 5 3] started_poor) 0) = 5
   \<and> 0 \<le> rider_wallet (riders (run [End_ride 0 5 2, Load_cash 0 30, End_ride 0 5 3] started_poor) 0)"
proof -
  have h: "0 \<le> rider_wallet (riders started_poor 0)"
    by (simp add: started_poor_facts alice_def)
  have low: "rider_wallet (riders started_poor (ride_rider (rides started_poor 0))) < estimated_fare (rides started_poor 0)"
    by (simp add: started_poor_facts alice_ride_def alice_def)
  have one: "rider_wallet (riders (run [End_ride 0 5 2] started_poor) 0) = 50"
    by (simp add: end_ride_insufficient [OF low] started_poor_facts alice_def)
  have three: "rider_wallet (riders (run [End_ride 0 5 2, Load_cash 0 30, End_ride 0 5 3] started_poor) 0) = 5"
    by (simp add: end_ride_insufficient [OF low] load_cash_def end_ride_def add_rating_def
        started_poor_facts alice_ride_def alice_def Let_def)
  show ?thesis
    using h low one three
      rider_wallet_never_negative [OF h, of "[End_ride 0 5 2, Load_cash 0 30, End_ride 0 5 3]" 0 5 2]
    by simp
qed

subsection \<open>Reservation\<close>

text \<open>
  Claim C4 against the code. \<open>find_driver\<close> binds the ride to the driver and
  \<open>request_ride\<close> binds it to the rider, but nothing calls \<open>start_drive\<close>: the
  vehicle's status stays \<open>available\<close>. In the scenario Alice's request gives Bob's car a
  ride; the car is still available, and while that ride is not even started Carol's
  request is matched with Bob again, whose reference now names Carol's ride.
\<close>

theorem find_driver_leaves_vehicle_available:
  "request_ride 0 (13, 14) [0, 1] demo = ([Ride_matched ''Bob'' 75], requested)
   \<and> rider_current_ride (riders requested 0) = Some 0
   \<and> driver_current_ride (drivers requested 0) = Some 0
   \<and> ride_driver (rides requested 0) = Some 0
   \<and> status (vehicles requested (driver_vehicle (drivers requested 0))) = ''available''
   \<and> fst (fst (find_driver [0, 1] \<lparr>request_rider = 1, destination = (15, 14)\<rparr> requested)) = Some 1
   \<and> ride_driver (rides (snd (find_driver [0, 1] \<lparr>request_rider = 1, destination = (15, 14)\<rparr> requested)) 1) = Some 0
   \<and> ride_driver (rides (snd (find_driver [0, 1] \<lparr>request_rider = 1, destination = (15, 14)\<rparr> requested)) 0) = Some 0
   \<and> ride_status (rides (snd (find_driver [0, 1] \<lparr>request_rider = 1, destination = (15, 14)\<rparr> requested)) 0) = Created
   \<and> driver_current_ride (drivers (snd (find_driver [0, 1] \<lparr>request_rider = 1, destination = (15, 14)\<rparr> requested)) 0) = Some 1"
proof -
  have av: "available requested d" for d
    by (simp add: available_def requested_def bob_def john_def car_def bike_def)
  have bob_at: "driver_current_location (drivers requested 0) = (11, 10)"
    by (simp add: requested_def bob_def)
  have john_at: "driver_current_location (drivers requested d) = (20, 30)" if "d \<noteq> 0" for d
    using that by (simp add: requested_def john_def)
  have near: "find_closest requested (12, 10) [0, 1] None None = Some 0"
    by (simp add: av bob_at john_at math_dist_def)
  have loc: "rider_current_location (riders requested 1) = (12, 10)"
    by (simp add: requested_def carol_def)
  have second: "find_closest requested
      (rider_current_location (riders requested (request_rider \<lparr>request_rider = 1, destination = (15, 14)\<rparr>)))
      [0, 1] None None = Some 0"
    using near loc by simp
  have nr: "next_ride requested = 1"
    by (simp add: requested_def)
  have r0: "ride_driver (rides (snd (find_driver [0, 1] \<lparr>request_rider = 1, destination = (15, 14)\<rparr> requested)) 0) = Some 0"
    and st: "ride_status (rides (snd (find_driver [0, 1] \<lparr>request_rider = 1, destination = (15, 14)\<rparr> requested)) 0) = Created"
    and cur: "driver_current_ride (drivers (snd (find_driver [0, 1] \<lparr>request_rider = 1, destination = (15, 14)\<rparr> requested)) 0) = Some 1"
    using near loc
    by (simp_all add: find_driver_def Ride_init_def accept_ride_def set_driver_def Let_def
        ride_status_def requested_def alice_ride_def)
  have veh: "status (vehicles requested (driver_vehicle (drivers requested 0))) = ''available''"
    using av [of 0] by (simp add: available_def)
  have first: "fst (fst (find_driver [0, 1] \<lparr>request_rider = 1, destination = (15, 14)\<rparr> requested)) = Some 1"
    and r1: "ride_driver (rides (snd (find_driver [0, 1] \<lparr>request_rider = 1, destination = (15, 14)\<rparr> requested)) 1) = Some 0"
    using find_driver_some [OF second] by (simp_all add: nr)
  show ?thesis
    using demo_request_ride first r1 r0 st cur veh
    by (simp add: requested_facts alice_ride_def)
qed

section \<open>Properties on Python's numbers\<close>

subsection \<open>Rounding to a double\<close>

lemma round_half_even_near:
  assumes "of_int m - 1 / 2 < y" and "y < of_int m + 1 / 2"
  shows "round_half_even y = m"
proof (cases "of_int m \<le> y")
  case True
  then have "\<lfloor>y\<rfloor> = m" using assms by linarith
  then show ?thesis using assms by (simp add: round_half_even_def Let_def)
next
  case False
  then have f: "\<lfloor>y\<rfloor> = m - 1" using assms by linarith
  have "\<not> y - of_int (m - 1) < 1 / 2" "1 / 2 < y - of_int (m - 1)"
    using assms False by simp_all
  then show ?thesis using f by (simp add: round_half_even_def Let_def)
qed

lemma round_half_even_tie: "round_half_even (of_int f + 1 / 2) = (if even f then f else f + 1)"
proof -
  have "\<lfloor>of_int f + 1 / 2 :: real\<rfloor> = f" by linarith
  then show ?thesis by (simp add: round_half_even_def Let_def)
qed

lemma powr_of_int_powi: "(2::real) powr of_int e = 2 powi e"
  by (simp add: powr_real_of_int power_int_def power_inverse inverse_eq_divide power_one_over)

lemma floor_log2_binade:
  assumes "2 powi e \<le> \<bar>x\<bar>" and "\<bar>x\<bar> < 2 powi (e + 1)"
  shows "\<lfloor>log 2 \<bar>x::real\<bar>\<rfloor> = e"
proof -
  have pos: "0 < \<bar>x\<bar>"
    using assms(1) zero_less_power_int [of "2::real" e] by linarith
  have "2 powr of_int e \<le> \<bar>x\<bar> \<and> \<bar>x\<bar> < 2 powr of_int (e + 1)"
    using assms by (simp only: powr_of_int_powi)
  then show ?thesis
    using floor_log_eq_powr_iff [of "\<bar>x\<bar>" 2 e] pos by simp
qed

lemma round_double_binade:
  assumes "2 powi e \<le> \<bar>x\<bar>" and "\<bar>x\<bar> < 2 powi (e + 1)" and "- 1022 \<le> e"
    and "of_int m - 1 / 2 < x / 2 powi (e - 52)" and "x / 2 powi (e - 52) < of_int m + 1 / 2"
    and "\<bar>of_int m * 2 powi (e - 52)\<bar> < (2::real) ^ 1024"
  shows "round_double x = Fin (of_int m * 2 powi (e - 52))"
proof -
  have "0 < \<bar>x\<bar>"
    using assms(1) zero_less_power_int [of "2::real" e] by linarith
  then have nz: "x \<noteq> 0" by simp
  have fl: "\<lfloor>log 2 \<bar>x\<bar>\<rfloor> = e" by (rule floor_log2_binade [OF assms(1,2)])
  have mx: "max (e - 52) (- 1074) = e - 52" using assms(3) by simp
  have rh: "round_half_even (x / 2 powi (e - 52)) = m"
    by (rule round_half_even_near [OF assms(4,5)])
  show ?thesis
    using nz assms(6) by (simp add: round_double_def fl mx rh Let_def)
qed

lemma round_double_binade_tie:
  assumes "2 powi e \<le> \<bar>x\<bar>" and "\<bar>x\<bar> < 2 powi (e + 1)" and "- 1022 \<le> e"
    and "x / 2 powi (e - 52) = of_int f + 1 / 2" and "odd f"
    and "\<bar>of_int (f + 1) * 2 powi (e - 52)\<bar> < (2::real) ^ 1024"
  shows "round_double x = Fin (of_int (f + 1) * 2 powi (e - 52))"
proof -
  have "0 < \<bar>x\<bar>"
    using assms(1) zero_less_power_int [of "2::real" e] by linarith
  then have nz: "x \<noteq> 0" by simp
  have fl: "\<lfloor>log 2 \<bar>x\<bar>\<rfloor> = e" by (rule floor_log2_binade [OF assms(1,2)])
  have mx: "max (e - 52) (- 1074) = e - 52" using assms(3) by simp
  have rh: "round_half_even (x / 2 powi (e - 52)) = f + 1"
    using assms(5) by (simp only: assms(4) round_half_even_tie) simp
  show ?thesis
    using nz assms(6) by (simp add: round_double_def fl mx rh Let_def)
qed

lemma round_double_binade_overflow:
  assumes "2 powi e \<le> \<bar>x\<bar>" and "\<bar>x\<bar> < 2 powi (e + 1)" and "- 1022 \<le> e"
    and "of_int m - 1 / 2 < x / 2 powi (e - 52)" and "x / 2 powi (e - 52) < of_int m + 1 / 2"
    and "(2::real) ^ 1024 \<le> \<bar>of_int m * 2 powi (e - 52)\<bar>" and "0 < x"
  shows "round_double x = PInf"
proof -
  have fl: "\<lfloor>log 2 \<bar>x\<bar>\<rfloor> = e" by (rule floor_log2_binade [OF assms(1,2)])
  have mx: "max (e - 52) (- 1074) = e - 52" using assms(3) by simp
  have rh: "round_half_even (x / 2 powi (e - 52)) = m"
    by (rule round_half_even_near [OF assms(4,5)])
  have "0 < \<bar>x\<bar>"
    using assms(1) zero_less_power_int [of "2::real" e] by linarith
  then have nz: "x \<noteq> 0" by simp
  have "round_double x =
          (if (2::real) ^ 1024 \<le> \<bar>of_int m * 2 powi (e - 52)\<bar>
           then (if 0 < x then PInf else NInf) else Fin (of_int m * 2 powi (e - 52)))"
    using nz by (simp add: round_double_def fl mx rh Let_def)
  then show ?thesis
    using assms(6,7) by simp
qed

lemma round_double_int:
  assumes "\<bar>i\<bar> < 2 ^ 53"
  shows "round_double (of_int i) = Fin (of_int i)"
proof (cases "i = 0")
  case True
  then show ?thesis by (simp add: round_double_def)
next
  case False
  define e where "e = \<lfloor>log 2 \<bar>of_int i :: real\<bar>\<rfloor>"
  have pos: "0 < \<bar>of_int i :: real\<bar>" using False by simp
  have bin: "2 powr of_int e \<le> \<bar>of_int i :: real\<bar> \<and> \<bar>of_int i :: real\<bar> < 2 powr of_int (e + 1)"
    using floor_log_eq_powr_iff [of "\<bar>of_int i :: real\<bar>" 2 e] pos e_def by simp
  then have lo: "2 powi e \<le> \<bar>of_int i :: real\<bar>" and hi: "\<bar>of_int i :: real\<bar> < 2 powi (e + 1)"
    by (simp_all only: powr_of_int_powi)
  have "1 \<le> \<bar>of_int i :: real\<bar>" using False by (simp add: of_int_abs [symmetric] del: of_int_abs)
  then have "0 \<le> log 2 \<bar>of_int i :: real\<bar>" by simp
  then have e0: "0 \<le> e" by (simp add: e_def)
  have "\<bar>of_int i :: real\<bar> < 2 ^ 53"
    using assms by (metis of_int_abs of_int_less_numeral_power_cancel_iff)
  then have "log 2 \<bar>of_int i :: real\<bar> < 53"
    using pos by (simp add: log_less_iff)
  then have e52: "e \<le> 52" by (simp add: e_def floor_le_iff)
  define k where "k = nat (52 - e)"
  have q: "(2::real) powi (e - 52) = 1 / 2 ^ k"
    using e52 by (simp add: power_int_def k_def power_inverse field_simps)
  have quot: "of_int i / (2::real) powi (e - 52) = of_int (i * 2 ^ k)"
    by (simp add: q)
  have same_i: "of_int (i * 2 ^ k) * (2::real) powi (e - 52) = of_int i"
    by (simp add: q)
  have big: "\<bar>of_int (i * 2 ^ k) * (2::real) powi (e - 52)\<bar> < 2 ^ 1024"
  proof -
    have "\<bar>of_int i :: real\<bar> < 2 ^ 53" by fact
    also have "(2::real) ^ 53 < 2 ^ 1024" by simp
    finally show ?thesis by (simp only: same_i)
  qed
  have "round_double (of_int i) = Fin (of_int (i * 2 ^ k) * 2 powi (e - 52))"
    by (rule round_double_binade [OF lo hi _ _ _ big]) (use e0 in \<open>simp_all add: quot\<close>)
  then show ?thesis by (simp only: same_i)
qed

lemma round_double_overflow: "round_double (2 ^ 1024) = PInf"
  by (rule round_double_binade_overflow [where e = 1024 and m = "2 ^ 52"]) simp_all

lemma round_double_numeral:
  "numeral n < (2::int) ^ 53 \<Longrightarrow> round_double (numeral n) = Fin (numeral n)"
  using round_double_int [of "numeral n"] by simp

lemma round_double_one: "round_double 1 = Fin 1"
  using round_double_int [of 1] by simp

lemma round_half_even_numeral: "round_half_even (numeral n) = numeral n"
  using round_half_even_of_int [of "numeral n"] by simp

lemmas py_eval = round_double_numeral round_double_one round_half_even_numeral

lemma round_double_sqrt:
  assumes "(2 powi e)\<^sup>2 \<le> S" and "S < (2 powi (e + 1))\<^sup>2" and "- 1022 \<le> e" and "1 \<le> m"
    and "((of_int m - 1 / 2) * 2 powi (e - 52))\<^sup>2 < S"
    and "S < ((of_int m + 1 / 2) * 2 powi (e - 52))\<^sup>2"
    and "\<bar>of_int m * 2 powi (e - 52)\<bar> < (2::real) ^ 1024"
  shows "round_double (sqrt S) = Fin (of_int m * 2 powi (e - 52))"
proof -
  let ?q = "(2::real) powi (e - 52)"
  have q: "0 < ?q" by simp
  have p: "0 < (2::real) powi e" "0 < (2::real) powi (e + 1)" by simp_all
  have S0: "0 \<le> S" using assms(1) by (meson order_trans zero_le_power2)
  have nonneg: "0 \<le> sqrt S" using S0 by simp
  have lo: "2 powi e \<le> \<bar>sqrt S\<bar>"
    using real_le_rsqrt [OF assms(1)] nonneg by simp
  have hi: "\<bar>sqrt S\<bar> < 2 powi (e + 1)"
    using real_less_lsqrt [OF _ assms(2)] p(2) nonneg by simp
  have "(of_int m - 1 / 2) * ?q < sqrt S"
    by (rule real_less_rsqrt [OF assms(5)])
  then have below: "of_int m - 1 / 2 < sqrt S / ?q"
    using q by (simp add: pos_less_divide_eq)
  have "0 \<le> (of_int m + 1 / 2) * ?q"
    using assms(4) q by simp
  then have "sqrt S < (of_int m + 1 / 2) * ?q"
    using real_less_lsqrt [OF _ assms(6)] by simp
  then have above: "sqrt S / ?q < of_int m + 1 / 2"
    using q by (simp add: pos_divide_less_eq)
  show ?thesis
    by (rule round_double_binade [OF lo hi assms(3) below above assms(7)])
qed

lemma to_double_int: "\<bar>i\<bar> < 2 ^ 53 \<Longrightarrow> to_double (PyInt i) = Inr (Fin (of_int i))"
  by (simp add: round_double_int)

lemma python_dist_ints:
  assumes "\<bar>a\<bar> < 2 ^ 52" and "\<bar>b\<bar> < 2 ^ 52" and "\<bar>c\<bar> < 2 ^ 52" and "\<bar>d\<bar> < 2 ^ 52"
  shows "python_dist (PyInt a, PyInt b) (PyInt c, PyInt d)
           = Inr (PyFloat (round_double (sqrt ((of_int (a - c))\<^sup>2 + (of_int (b - d))\<^sup>2))))"
proof -
  have "\<bar>a\<bar> < 2 ^ 53" "\<bar>b\<bar> < 2 ^ 53" "\<bar>c\<bar> < 2 ^ 53" "\<bar>d\<bar> < 2 ^ 53"
    using assms by simp_all
  then have conv: "to_double (PyInt a) = Inr (Fin (of_int a))" "to_double (PyInt b) = Inr (Fin (of_int b))"
    "to_double (PyInt c) = Inr (Fin (of_int c))" "to_double (PyInt d) = Inr (Fin (of_int d))"
    by (simp_all only: to_double_int)
  have "\<bar>a - c\<bar> < 2 ^ 53" using assms(1,3) by simp
  then have dx: "fl_sub (Fin (of_int a)) (Fin (of_int c)) = Fin (of_int (a - c))"
    using round_double_int [of "a - c"] by (simp add: fl_sub_def)
  have "\<bar>b - d\<bar> < 2 ^ 53" using assms(2,4) by simp
  then have dy: "fl_sub (Fin (of_int b)) (Fin (of_int d)) = Fin (of_int (b - d))"
    using round_double_int [of "b - d"] by (simp add: fl_sub_def)
  show ?thesis
    by (simp add: python_dist_def conv dx dy del: of_int_diff to_double.simps)
qed

subsection \<open>Evaluating the scenarios\<close>

lemma demo_py_facts:
  "riders demo_py r = alice_py"
  "drivers demo_py 0 = bob_py"
  "d \<noteq> 0 \<Longrightarrow> drivers demo_py d = john_py"
  "vehicles demo_py 0 = car_py"
  "v \<noteq> 0 \<Longrightarrow> vehicles demo_py v = bike_py"
  "next_ride demo_py = 0"
  "available demo_py d"
  by (simp_all add: demo_py_def available_def bob_py_def john_py_def car_py_def bike_py_def)

lemma far_py_facts:
  "riders far_py r = alice_py\<lparr>rider_current_location := (PyInt 0, PyInt 0)\<rparr>"
  "drivers far_py 0 = bob_py\<lparr>driver_current_location := (PyInt 134217728, PyInt 1)\<rparr>"
  "d \<noteq> 0 \<Longrightarrow> drivers far_py d = john_py\<lparr>driver_current_location := (PyInt 134217728, PyInt 0)\<rparr>"
  "vehicles far_py 0 = car_py"
  "next_ride far_py = 0"
  "available far_py d"
  by (simp_all add: far_py_def demo_py_def available_def bob_py_def john_py_def car_py_def bike_py_def)

lemma edge_py_facts:
  "riders edge_py r = alice_py\<lparr>rider_current_location := (PyFloat (Fin (- (2 ^ 1023))), PyInt 0)\<rparr>"
  "drivers edge_py d = bob_py\<lparr>driver_current_location := (PyFloat (Fin (2 ^ 1023)), PyInt 0)\<rparr>"
  "available edge_py d"
  by (simp_all add: edge_py_def demo_py_def available_def bob_py_def car_py_def bike_py_def)

lemma round_double_425: "round_double (425 + 1 / 2 ^ 46) = Fin 425"
proof -
  have "round_double (425 + 1 / 2 ^ 46) = Fin (of_int (425 * 2 ^ 44) * 2 powi (8 - 52))"
    by (rule round_double_binade) simp_all
  then show ?thesis by simp
qed

lemma round_double_sqrt_500: "round_double (sqrt 500) = Fin (6293971818901970 / 2 ^ 48)"
proof -
  have "round_double (sqrt 500) = Fin (of_int 6293971818901970 * 2 powi (4 - 52))"
    by (rule round_double_sqrt) (simp_all add: power2_eq_square)
  then show ?thesis by simp
qed

lemma round_double_sqrt_far: "round_double (sqrt 18014398509481985) = Fin 134217728"
proof -
  have "round_double (sqrt 18014398509481985) = Fin (of_int (2 ^ 52) * 2 powi (27 - 52))"
    by (rule round_double_sqrt) (simp_all add: power2_eq_square)
  then show ?thesis by simp
qed

lemma round_double_sqrt_long:
  "round_double (sqrt 98896994516858) = Fin (5339018442548008 / 2 ^ 29)"
proof -
  have "round_double (sqrt 98896994516858) = Fin (of_int 5339018442548008 * 2 powi (23 - 52))"
    by (rule round_double_sqrt) (simp_all add: power2_eq_square)
  then show ?thesis by simp
qed

lemma round_double_product_long:
  "round_double (5339018442548008 / 2 ^ 29 * 15) = Fin (5005329789888758 / 2 ^ 25)"
proof -
  have "round_double (5339018442548008 / 2 ^ 29 * 15)
          = Fin (of_int (5005329789888757 + 1) * 2 powi (27 - 52))"
    by (rule round_double_binade_tie) simp_all
  then show ?thesis by simp
qed

lemma round_half_even_cents_long:
  "round_half_even (5005329789888758 / 2 ^ 25 * 10\<^sup>2) = 14917045206"
  by (rule round_half_even_near) simp_all

lemma round_double_fare_long:
  "round_double (14917045206 / 10\<^sup>2) = Fin (5005329790056530 / 2 ^ 25)"
proof -
  have "round_double (14917045206 / 10\<^sup>2) = Fin (of_int 5005329790056530 * 2 powi (27 - 52))"
    by (rule round_double_binade) simp_all
  then show ?thesis by simp
qed

lemma exact_fare_long:
  "py_round (math_dist (0, 0) (8021857, 5877653) * 15) 2 = 14917045205 / 100"
proof -
  have lo: "(14917045205 - 1 / 2) / 1500 < sqrt 98896994516858"
    by (rule real_less_rsqrt) (simp add: power2_eq_square)
  have hi: "sqrt 98896994516858 < (14917045205 + 1 / 2) / 1500"
    by (rule real_less_lsqrt) (simp_all add: power2_eq_square)
  have "round_half_even (sqrt 98896994516858 * 15 * 10\<^sup>2) = 14917045205"
    by (rule round_half_even_near) (use lo hi in simp_all)
  then show ?thesis
    by (simp add: py_round_def math_dist_def)
qed

lemma dist_3_4: "lib_dist python (PyInt 10, PyInt 10) (PyInt 13, PyInt 14) = Inr (PyFloat (Fin 5))"
  by (simp add: python_def python_dist_ints sqrt_25 py_eval)

lemma dist_0_3_4: "lib_dist python (PyInt 0, PyInt 0) (PyInt 3, PyInt 4) = Inr (PyFloat (Fin 5))"
  by (simp add: python_def python_dist_ints sqrt_25 py_eval)

lemma mul_5_15: "lib_mul python (PyFloat (Fin 5)) (PyInt 15) = Inr (PyFloat (Fin 75))"
  by (simp add: python_def float_op_def py_eval)

lemma mul_5_8: "lib_mul python (PyFloat (Fin 5)) (PyInt 8) = Inr (PyFloat (Fin 40))"
  by (simp add: python_def float_op_def py_eval)

lemma round_75: "lib_round python (PyFloat (Fin 75)) 2 = Inr (PyFloat (Fin 75))"
  by (simp add: python_def py_eval)

lemma round_40: "lib_round python (PyFloat (Fin 40)) 2 = Inr (PyFloat (Fin 40))"
  by (simp add: python_def py_eval)

lemma dist_bob: "lib_dist python (PyInt 11, PyInt 10) (PyInt 10, PyInt 10) = Inr (PyFloat (Fin 1))"
  by (simp add: python_def python_dist_ints py_eval)

lemma dist_john:
  "lib_dist python (PyInt 20, PyInt 30) (PyInt 10, PyInt 10)
     = Inr (PyFloat (Fin (6293971818901970 / 2 ^ 48)))"
  using round_double_sqrt_500 by (simp add: python_def python_dist_ints)

lemma dist_far_bob:
  "lib_dist python (PyInt 134217728, PyInt 1) (PyInt 0, PyInt 0) = Inr (PyFloat (Fin 134217728))"
  using round_double_sqrt_far by (simp add: python_def python_dist_ints)

lemma dist_far_john:
  "lib_dist python (PyInt 134217728, PyInt 0) (PyInt 0, PyInt 0) = Inr (PyFloat (Fin 134217728))"
  by (simp add: python_def python_dist_ints py_eval)

lemma dist_edge:
  "lib_dist python (PyFloat (Fin (2 ^ 1023)), PyInt 0) (PyFloat (Fin (- (2 ^ 1023))), PyInt 0)
     = Inr (PyFloat PInf)"
proof -
  have "fl_sub (Fin (2 ^ 1023)) (Fin (- (2 ^ 1023))) = PInf"
    using round_double_overflow by (simp add: fl_sub_def)
  moreover have "to_double (PyInt 0) = Inr (Fin 0)"
    using to_double_int [of 0] by simp
  ultimately show ?thesis
    by (simp add: python_def python_dist_def del: to_double.simps(2))
qed

lemma dist_long:
  "lib_dist python (PyInt 0, PyInt 0) (PyInt 8021857, PyInt 5877653)
     = Inr (PyFloat (Fin (5339018442548008 / 2 ^ 29)))"
  using round_double_sqrt_long by (simp add: python_def python_dist_ints)

lemma mul_long:
  "lib_mul python (PyFloat (Fin (5339018442548008 / 2 ^ 29))) (PyInt 15)
     = Inr (PyFloat (Fin (5005329789888758 / 2 ^ 25)))"
  using round_double_product_long by (simp add: python_def float_op_def py_eval)

lemma round_long:
  "lib_round python (PyFloat (Fin (5005329789888758 / 2 ^ 25))) 2
     = Inr (PyFloat (Fin (5005329790056530 / 2 ^ 25)))"
  using round_half_even_cents_long round_double_fare_long by (simp add: python_def)

lemma sub_500_75: "lib_sub python (PyInt 500) (PyFloat (Fin 75)) = Inr (PyFloat (Fin 425))"
  by (simp add: python_def float_op_def fl_sub_def py_eval)

lemma add_0_75: "lib_add python (PyInt 0) (PyFloat (Fin 75)) = Inr (PyFloat (Fin 75))"
  using to_double_int [of 0] by (simp add: python_def float_op_def py_eval del: to_double.simps(2))

lemma far_py_closest:
  "find_closest_py python far_py (PyInt 0, PyInt 0) [0, 1] None (PyFloat PInf) = Inr (Some 0)"
  using dist_far_bob dist_far_john
  by (simp add: far_py_facts bob_py_def john_py_def num_less_def)

lemma matched_py_facts:
  "rides matched_py 0 =
     \<lparr>start_location = (PyInt 10, PyInt 10), end_location = (PyInt 13, PyInt 14),
      ride_driver = Some 0, ride_rider = 0, ride_vehicle = 0, start_time = None,
      end_time = None, estimated_fare = PyFloat (Fin 75)\<rparr>"
  "riders matched_py r = alice_py"
  "drivers matched_py 0 = bob_py\<lparr>driver_current_ride := Some 0\<rparr>"
proof -
  have loop: "find_closest_py python demo_py (PyInt 10, PyInt 10) [0, 1] None (PyFloat PInf) = Inr (Some 0)"
    using dist_bob dist_john
    by (simp add: demo_py_facts bob_py_def john_py_def num_less_def)
  have fare: "calculate_fare_py python demo_py
      \<lparr>start_location = (PyInt 10, PyInt 10), end_location = (PyInt 13, PyInt 14), ride_driver = None,
       ride_rider = 0, ride_vehicle = 0, start_time = None, end_time = None,
       estimated_fare = PyInt 0\<rparr> = Inr (PyFloat (Fin 75))"
    using dist_3_4 mul_5_15 round_75
    by (simp add: calculate_fare_py_def demo_py_facts car_py_def)
  have m: "matched_py = accept_ride 0 0
      (demo_py\<lparr>rides := (rides demo_py)(0 :=
          \<lparr>start_location = (PyInt 10, PyInt 10), end_location = (PyInt 13, PyInt 14),
           ride_driver = None, ride_rider = 0, ride_vehicle = 0, start_time = None,
           end_time = None, estimated_fare = PyFloat (Fin 75)\<rparr>), next_ride := Suc 0\<rparr>)"
    using loop fare
    by (simp add: matched_py_def find_driver_py_def Ride_init_py_def Let_def demo_py_facts
        alice_py_def bob_py_def)
  show "rides matched_py 0 =
     \<lparr>start_location = (PyInt 10, PyInt 10), end_location = (PyInt 13, PyInt 14),
      ride_driver = Some 0, ride_rider = 0, ride_vehicle = 0, start_time = None,
      end_time = None, estimated_fare = PyFloat (Fin 75)\<rparr>"
    by (simp add: m accept_ride_def set_driver_def)
  show "riders matched_py r = alice_py"
    by (simp add: m accept_ride_def set_driver_def demo_py_facts)
  show "drivers matched_py 0 = bob_py\<lparr>driver_current_ride := Some 0\<rparr>"
    by (simp add: m accept_ride_def set_driver_def demo_py_facts)
qed

lemma started_py_facts:
  "estimated_fare (rides started_py 0) = PyFloat (Fin 75)"
  "ride_rider (rides started_py 0) = 0"
  "ride_driver (rides started_py 0) = Some 0"
  "rider_wallet (riders started_py 0) = PyInt 500"
  "driver_wallet (drivers started_py 0) = PyInt 0"
  by (simp_all add: started_py_def start_ride_def matched_py_facts alice_py_def bob_py_def)

subsection \<open>Loading cash\<close>

text \<open>
  Claim C10, as the spec states it, fails on Python's numbers. A float wallet of 425.0,
  which is what 500 becomes once a fare of 75.0 is paid, is the double nearest to
  \<open>425 + 2 powi (- 46)\<close>: loading the strictly positive amount \<open>2 powi (- 46)\<close> leaves
  the wallet, and the whole store, as it was. And \<open>load_cash\<close> can fail: with the int
  \<open>2 ^ 1024\<close> in the wallet, loading the float 0.5 raises OverflowError, the int being
  too large to convert.
\<close>

theorem load_cash_exact_amount_counterexample:
  "num_less (PyInt 0) (PyFloat (Fin (1 / 2 ^ 46)))
   \<and> rider_wallet (riders paid_py 0) = PyFloat (Fin 425)
   \<and> load_cash_py python 0 (PyFloat (Fin (1 / 2 ^ 46))) paid_py = (None, paid_py)
   \<and> num_less (PyInt 0) (PyFloat (Fin (1 / 2)))
   \<and> rider_wallet (riders huge_py 0) = PyInt (2 ^ 1024)
   \<and> load_cash_py python 0 (PyFloat (Fin (1 / 2))) huge_py = (Some OverflowError, huge_py)"
proof -
  have w: "rider_wallet (riders paid_py 0) = PyFloat (Fin 425)"
    by (simp add: paid_py_def)
  have sum: "lib_add python (PyFloat (Fin 425)) (PyFloat (Fin (1 / 2 ^ 46))) = Inr (PyFloat (Fin 425))"
    using round_double_425 by (simp add: python_def float_op_def)
  have same: "paid_py\<lparr>riders := (riders paid_py)(0 := (riders paid_py 0)\<lparr>rider_wallet := PyFloat (Fin 425)\<rparr>)\<rparr> = paid_py"
    by (simp add: paid_py_def fun_eq_iff)
  have small: "load_cash_py python 0 (PyFloat (Fin (1 / 2 ^ 46))) paid_py = (None, paid_py)"
    using same sum by (simp add: load_cash_py_def num_less_def w)
  have hw: "rider_wallet (riders huge_py 0) = PyInt (2 ^ 1024)"
    by (simp add: huge_py_def)
  have "round_double (of_int (2 ^ 1024)) = PInf"
    using round_double_overflow by simp
  then have "lib_add python (PyInt (2 ^ 1024)) (PyFloat (Fin (1 / 2))) = Inl OverflowError"
    by (simp add: python_def float_op_def del: of_int_power of_int_numeral)
  then have big: "load_cash_py python 0 (PyFloat (Fin (1 / 2))) huge_py = (Some OverflowError, huge_py)"
    by (simp add: load_cash_py_def num_less_def hw)
  show ?thesis
    using w small hw big by (simp add: num_less_def)
qed

text \<open>
  Claim C10, amended. With a strictly positive amount \<open>load_cash\<close> sets the wallet to
  Python's sum of the wallet and the amount and changes no other field of the rider and
  nothing else in the store; the sum is the exact one when both are ints, and the
  double nearest to the exact one when both are finite floats. With an amount that is
  zero, negative or NaN it changes nothing. It fails only when the addition raises, and
  then changes nothing.
\<close>

theorem load_cash_adds_python_sum:
  "(num_less (PyInt 0) amount \<and> lib_add A (rider_wallet (riders s r)) amount = Inr w \<longrightarrow>
      load_cash_py A r amount s
        = (None, s\<lparr>riders := (riders s)(r := (riders s r)\<lparr>rider_wallet := w\<rparr>)\<rparr>))
   \<and> (num_less (PyInt 0) amount \<and> lib_add A (rider_wallet (riders s r)) amount = Inl e \<longrightarrow>
        load_cash_py A r amount s = (Some e, s))
   \<and> (\<not> num_less (PyInt 0) amount \<longrightarrow> load_cash_py A r amount s = (None, s))
   \<and> lib_add python (PyInt i) (PyInt j) = Inr (PyInt (i + j))
   \<and> lib_add python (PyFloat (Fin x)) (PyFloat (Fin y)) = Inr (PyFloat (round_double (x + y)))"
  by (simp add: load_cash_py_def python_def float_op_def)

text \<open>
  Alice's 500 and an amount of 50 are ints: the wallet is the int 550. A negative
  amount changes nothing, and the float 0.5 on a wallet of \<open>2 ^ 1024\<close> raises.
\<close>

theorem load_cash_adds_python_sum_witness:
  "num_less (PyInt 0) (PyInt 50)
   \<and> lib_add python (rider_wallet (riders demo_py 0)) (PyInt 50) = Inr (PyInt 550)
   \<and> rider_wallet (riders (snd (load_cash_py python 0 (PyInt 50) demo_py)) 0) = PyInt 550
   \<and> fst (load_cash_py python 0 (PyInt 50) demo_py) = None
   \<and> \<not> num_less (PyInt 0) (PyInt (- 5))
   \<and> load_cash_py python 0 (PyInt (- 5)) demo_py = (None, demo_py)
   \<and> num_less (PyInt 0) (PyFloat (Fin (1 / 2)))
   \<and> lib_add python (rider_wallet (riders huge_py 0)) (PyFloat (Fin (1 / 2))) = Inl OverflowError
   \<and> load_cash_py python 0 (PyFloat (Fin (1 / 2))) huge_py = (Some OverflowError, huge_py)"
proof -
  have pos: "num_less (PyInt 0) (PyInt 50)" and neg: "\<not> num_less (PyInt 0) (PyInt (- 5))"
    and half: "num_less (PyInt 0) (PyFloat (Fin (1 / 2)))"
    by (simp_all add: num_less_def)
  have w: "rider_wallet (riders demo_py 0) = PyInt 500"
    by (simp add: demo_py_def alice_py_def)
  have sum: "lib_add python (rider_wallet (riders demo_py 0)) (PyInt 50) = Inr (PyInt 550)"
    by (simp add: w python_def)
  have hw: "rider_wallet (riders huge_py 0) = PyInt (2 ^ 1024)"
    by (simp add: huge_py_def)
  have "round_double (of_int (2 ^ 1024)) = PInf"
    using round_double_overflow by simp
  then have over: "lib_add python (rider_wallet (riders huge_py 0)) (PyFloat (Fin (1 / 2))) = Inl OverflowError"
    by (simp add: hw python_def float_op_def del: of_int_power of_int_numeral)
  show ?thesis
    using pos neg half sum over
      load_cash_adds_python_sum [of "PyInt 50" python demo_py 0 "PyInt 550"]
      load_cash_adds_python_sum [of "PyInt (- 5)" python demo_py 0]
      load_cash_adds_python_sum [of "PyFloat (Fin (1 / 2))" python huge_py 0 _ OverflowError]
    by simp
qed

subsection \<open>The loop of find\_driver on Python's numbers\<close>

lemma num_less_trans: "num_less a b \<Longrightarrow> num_less b c \<Longrightarrow> num_less a c"
  unfolding num_less_def
  by (cases "to_value a"; cases "to_value b"; cases "to_value c") simp_all

lemma num_less_asym: "num_less a b \<Longrightarrow> \<not> num_less b a"
  unfolding num_less_def
  by (cases "to_value a"; cases "to_value b") simp_all

lemma num_less_below_inf: "num_less a b \<Longrightarrow> num_less a (PyFloat PInf)"
  unfolding num_less_def
  by (cases "to_value a"; cases "to_value b") simp_all

lemma num_less_not_below_inf: "\<not> num_less a (PyFloat PInf) \<Longrightarrow> \<not> num_less a b"
  using num_less_below_inf by blast

lemma num_less_skip:
  "num_less a b \<Longrightarrow> \<not> num_less c b \<Longrightarrow> num_less c (PyFloat PInf) \<Longrightarrow> num_less a c"
  unfolding num_less_def
  by (cases "to_value a"; cases "to_value b"; cases "to_value c") simp_all

text \<open>
  What the loop returns when every call of \<open>math.dist\<close> returns, \<open>dc x\<close> being the
  distance computed for driver \<open>x\<close>: either the driver it started with, no available
  driver of the rest having a distance below \<open>min_distance\<close>; or a driver of the rest
  whose distance is below \<open>min_distance\<close>, below that of every available driver before
  it whose distance is below infinity, and not above that of any available driver after
  it.
\<close>

lemma find_closest_py_acc:
  assumes "\<forall>x\<in>set xs. available s x \<longrightarrow>
             lib_dist A (driver_current_location (drivers s x)) loc = Inr (dc x)"
  shows "(find_closest_py A s loc xs c m = Inr c
          \<and> (\<forall>x\<in>set xs. available s x \<longrightarrow> \<not> num_less (dc x) m))
       \<or> (\<exists>d ys zs. find_closest_py A s loc xs c m = Inr (Some d)
            \<and> xs = ys @ d # zs \<and> available s d \<and> num_less (dc d) m
            \<and> (\<forall>y\<in>set ys. available s y \<and> num_less (dc y) (PyFloat PInf) \<longrightarrow> num_less (dc d) (dc y))
            \<and> (\<forall>z\<in>set zs. available s z \<longrightarrow> \<not> num_less (dc z) (dc d)))"
  using assms
proof (induction xs arbitrary: c m)
  case Nil
  then show ?case by simp
next
  case (Cons x xs)
  have rest: "\<forall>y\<in>set xs. available s y \<longrightarrow>
                lib_dist A (driver_current_location (drivers s y)) loc = Inr (dc y)"
    using Cons.prems by simp
  show ?case
  proof (cases "available s x")
    case False
    then have step: "find_closest_py A s loc (x # xs) c m = find_closest_py A s loc xs c m"
      by simp
    from Cons.IH [OF rest, of c m]
    consider (kept) "find_closest_py A s loc xs c m = Inr c"
        "\<forall>y\<in>set xs. available s y \<longrightarrow> \<not> num_less (dc y) m"
      | (later) d ys zs where "find_closest_py A s loc xs c m = Inr (Some d)"
          "xs = ys @ d # zs" "available s d" "num_less (dc d) m"
          "\<forall>y\<in>set ys. available s y \<and> num_less (dc y) (PyFloat PInf) \<longrightarrow> num_less (dc d) (dc y)"
          "\<forall>z\<in>set zs. available s z \<longrightarrow> \<not> num_less (dc z) (dc d)"
      by blast
    then show ?thesis
    proof cases
      case kept
      then have "find_closest_py A s loc (x # xs) c m = Inr c
          \<and> (\<forall>y\<in>set (x # xs). available s y \<longrightarrow> \<not> num_less (dc y) m)"
        using False step by simp
      then show ?thesis by (intro disjI1)
    next
      case later
      then have "find_closest_py A s loc (x # xs) c m = Inr (Some d)
          \<and> x # xs = (x # ys) @ d # zs \<and> available s d \<and> num_less (dc d) m
          \<and> (\<forall>y\<in>set (x # ys). available s y \<and> num_less (dc y) (PyFloat PInf) \<longrightarrow> num_less (dc d) (dc y))
          \<and> (\<forall>z\<in>set zs. available s z \<longrightarrow> \<not> num_less (dc z) (dc d))"
        using False step by simp
      then show ?thesis by (intro disjI2 exI)
    qed
  next
    case True
    then have dx: "lib_dist A (driver_current_location (drivers s x)) loc = Inr (dc x)"
      using Cons.prems by simp
    show ?thesis
    proof (cases "num_less (dc x) m")
      case accept: True
      have step: "find_closest_py A s loc (x # xs) c m = find_closest_py A s loc xs (Some x) (dc x)"
        using True dx accept by simp
      from Cons.IH [OF rest, of "Some x" "dc x"]
      consider (kept) "find_closest_py A s loc xs (Some x) (dc x) = Inr (Some x)"
          "\<forall>y\<in>set xs. available s y \<longrightarrow> \<not> num_less (dc y) (dc x)"
        | (later) d ys zs where "find_closest_py A s loc xs (Some x) (dc x) = Inr (Some d)"
            "xs = ys @ d # zs" "available s d" "num_less (dc d) (dc x)"
            "\<forall>y\<in>set ys. available s y \<and> num_less (dc y) (PyFloat PInf) \<longrightarrow> num_less (dc d) (dc y)"
            "\<forall>z\<in>set zs. available s z \<longrightarrow> \<not> num_less (dc z) (dc d)"
        by blast
      then show ?thesis
      proof cases
        case kept
        then have "find_closest_py A s loc (x # xs) c m = Inr (Some x)
            \<and> x # xs = [] @ x # xs \<and> available s x \<and> num_less (dc x) m
            \<and> (\<forall>y\<in>set []. available s y \<and> num_less (dc y) (PyFloat PInf) \<longrightarrow> num_less (dc x) (dc y))
            \<and> (\<forall>z\<in>set xs. available s z \<longrightarrow> \<not> num_less (dc z) (dc x))"
          using True accept step by simp
        then show ?thesis by (intro disjI2 exI)
      next
        case later
        have "num_less (dc d) m"
          using later(4) accept by (rule num_less_trans)
        then have "find_closest_py A s loc (x # xs) c m = Inr (Some d)
            \<and> x # xs = (x # ys) @ d # zs \<and> available s d \<and> num_less (dc d) m
            \<and> (\<forall>y\<in>set (x # ys). available s y \<and> num_less (dc y) (PyFloat PInf) \<longrightarrow> num_less (dc d) (dc y))
            \<and> (\<forall>z\<in>set zs. available s z \<longrightarrow> \<not> num_less (dc z) (dc d))"
          using later step by simp
        then show ?thesis by (intro disjI2 exI)
      qed
    next
      case reject: False
      have step: "find_closest_py A s loc (x # xs) c m = find_closest_py A s loc xs c m"
        using True dx reject by simp
      from Cons.IH [OF rest, of c m]
      consider (kept) "find_closest_py A s loc xs c m = Inr c"
          "\<forall>y\<in>set xs. available s y \<longrightarrow> \<not> num_less (dc y) m"
        | (later) d ys zs where "find_closest_py A s loc xs c m = Inr (Some d)"
            "xs = ys @ d # zs" "available s d" "num_less (dc d) m"
            "\<forall>y\<in>set ys. available s y \<and> num_less (dc y) (PyFloat PInf) \<longrightarrow> num_less (dc d) (dc y)"
            "\<forall>z\<in>set zs. available s z \<longrightarrow> \<not> num_less (dc z) (dc d)"
        by blast
      then show ?thesis
      proof cases
        case kept
        then have "find_closest_py A s loc (x # xs) c m = Inr c
            \<and> (\<forall>y\<in>set (x # xs). available s y \<longrightarrow> \<not> num_less (dc y) m)"
          using reject step by simp
        then show ?thesis by (intro disjI1)
      next
        case later
        have "num_less (dc x) (PyFloat PInf) \<longrightarrow> num_less (dc d) (dc x)"
          using later(4) reject num_less_skip by blast
        then have "find_closest_py A s loc (x # xs) c m = Inr (Some d)
            \<and> x # xs = (x # ys) @ d # zs \<and> available s d \<and> num_less (dc d) m
            \<and> (\<forall>y\<in>set (x # ys). available s y \<and> num_less (dc y) (PyFloat PInf) \<longrightarrow> num_less (dc d) (dc y))
            \<and> (\<forall>z\<in>set zs. available s z \<longrightarrow> \<not> num_less (dc z) (dc d))"
          using later step by simp
        then show ?thesis by (intro disjI2 exI)
      qed
    qed
  qed
qed

text \<open>
  From the loop's initial variables, by position in the pool.
\<close>

lemma find_closest_py_first_nearest:
  assumes dists: "\<forall>x\<in>set pool. available s x \<longrightarrow>
             lib_dist A (driver_current_location (drivers s x)) loc = Inr (dc x)"
    and some: "\<exists>x\<in>set pool. available s x \<and> num_less (dc x) (PyFloat PInf)"
  shows "\<exists>d i. find_closest_py A s loc pool None (PyFloat PInf) = Inr (Some d)
           \<and> i < length pool \<and> pool ! i = d \<and> available s d
           \<and> num_less (dc d) (PyFloat PInf)
           \<and> (\<forall>j<length pool. available s (pool ! j) \<longrightarrow> \<not> num_less (dc (pool ! j)) (dc d))
           \<and> (\<forall>j<i. available s (pool ! j) \<and> num_less (dc (pool ! j)) (PyFloat PInf)
                 \<longrightarrow> num_less (dc d) (dc (pool ! j)))"
proof -
  from find_closest_py_acc [OF dists, of None "PyFloat PInf"] some
  obtain d ys zs where res: "find_closest_py A s loc pool None (PyFloat PInf) = Inr (Some d)"
    and dec: "pool = ys @ d # zs" and av: "available s d"
    and below: "num_less (dc d) (PyFloat PInf)"
    and before: "\<forall>y\<in>set ys. available s y \<and> num_less (dc y) (PyFloat PInf) \<longrightarrow> num_less (dc d) (dc y)"
    and after: "\<forall>z\<in>set zs. available s z \<longrightarrow> \<not> num_less (dc z) (dc d)"
    by blast
  have none_before: "\<not> num_less (dc y) (dc d)" if "y \<in> set ys" "available s y" for y
  proof (cases "num_less (dc y) (PyFloat PInf)")
    case True
    then have "num_less (dc d) (dc y)" using before that by blast
    then show ?thesis by (rule num_less_asym)
  next
    case False
    then show ?thesis by (rule num_less_not_below_inf)
  qed
  have self: "\<not> num_less (dc d) (dc d)"
    using num_less_asym by blast
  have all: "\<forall>x\<in>set pool. available s x \<longrightarrow> \<not> num_less (dc x) (dc d)"
    using dec none_before self after by auto
  have "length ys < length pool" using dec by simp
  moreover have "pool ! length ys = d" using dec by simp
  moreover have "\<forall>j<length pool. available s (pool ! j) \<longrightarrow> \<not> num_less (dc (pool ! j)) (dc d)"
    using all by simp
  moreover have "\<forall>j<length ys. available s (pool ! j) \<and> num_less (dc (pool ! j)) (PyFloat PInf)
                   \<longrightarrow> num_less (dc d) (dc (pool ! j))"
    using dec before by (simp add: nth_append)
  ultimately show ?thesis using res av below by blast
qed

lemma find_closest_py_no_candidate:
  assumes dists: "\<forall>x\<in>set pool. available s x \<longrightarrow>
             lib_dist A (driver_current_location (drivers s x)) loc = Inr (dc x)"
    and none: "\<forall>x\<in>set pool. available s x \<longrightarrow> \<not> num_less (dc x) (PyFloat PInf)"
  shows "find_closest_py A s loc pool None (PyFloat PInf) = Inr None"
proof -
  from find_closest_py_acc [OF dists, of None "PyFloat PInf"]
  show ?thesis using none by auto
qed

lemma find_driver_py_some:
  assumes "find_closest_py A s (rider_current_location (riders s (request_rider req))) pool None (PyFloat PInf)
             = Inr (Some d)"
    and "Ride_init_py A (rider_current_location (riders s (request_rider req))) (destination req)
           (request_rider req) (driver_vehicle (drivers s d)) s = Inr r"
  shows "\<exists>msg. fst (find_driver_py A pool req s) = Inr (Some (next_ride s), msg)"
    and "ride_driver (rides (snd (find_driver_py A pool req s)) (next_ride s)) = Some d"
proof -
  obtain ref s1 where r: "r = (ref, s1)" by (cases r)
  have ref: "ref = next_ride s"
    and s1: "s1 = s\<lparr>rides := (rides s)(next_ride s := rides s1 (next_ride s)), next_ride := Suc (next_ride s)\<rparr>"
    using assms(2) unfolding r
    by (auto simp: Ride_init_py_def Let_def split: sum.splits)
  show "\<exists>msg. fst (find_driver_py A pool req s) = Inr (Some (next_ride s), msg)"
    using assms r ref by (simp add: find_driver_py_def Let_def)
  show "ride_driver (rides (snd (find_driver_py A pool req s)) (next_ride s)) = Some d"
    using assms r ref by (simp add: find_driver_py_def Let_def accept_ride_def set_driver_def)
qed

subsection \<open>Dispatch on Python's numbers\<close>

text \<open>
  Claim C1, as the spec states it, fails on Python's numbers. \<open>math.dist\<close> returns a
  double: with the rider at the origin, Bob at (134217728, 1) and John at
  (134217728, 0), both computed distances are 134217728.0 although John is strictly
  nearer, and the loop keeps Bob, who comes first in the pool. And an available driver
  is not always matched: for the lone driver at \<open>(2 ^ 1023, 0)\<close> with the rider at
  \<open>(- (2 ^ 1023), 0)\<close> the computed distance is \<open>inf\<close>, which is not below the
  initial \<open>min_distance\<close>, and \<open>find_driver\<close> returns \<open>None\<close>.
\<close>

theorem find_driver_euclidean_counterexample:
  "driver_current_location (drivers far_py 0) = (PyInt 134217728, PyInt 1)
   \<and> driver_current_location (drivers far_py 1) = (PyInt 134217728, PyInt 0)
   \<and> rider_current_location (riders far_py 0) = (PyInt 0, PyInt 0)
   \<and> available far_py 0 \<and> available far_py 1
   \<and> math_dist (134217728, 0) (0, 0) < math_dist (134217728, 1) (0, 0)
   \<and> lib_dist python (PyInt 134217728, PyInt 1) (PyInt 0, PyInt 0) = Inr (PyFloat (Fin 134217728))
   \<and> lib_dist python (PyInt 134217728, PyInt 0) (PyInt 0, PyInt 0) = Inr (PyFloat (Fin 134217728))
   \<and> fst (find_driver_py python [0, 1] \<lparr>request_rider = 0, destination = (PyInt 3, PyInt 4)\<rparr> far_py)
       = Inr (Some 0, Ride_matched ''Bob'' (PyFloat (Fin 75)))
   \<and> ride_driver (rides (snd (find_driver_py python [0, 1]
         \<lparr>request_rider = 0, destination = (PyInt 3, PyInt 4)\<rparr> far_py)) 0) = Some 0
   \<and> available edge_py 0
   \<and> find_driver_py python [0] \<lparr>request_rider = 0, destination = (PyInt 0, PyInt 0)\<rparr> edge_py
       = (Inr (None, No_available_driver_found), edge_py)"
proof -
  have locs: "driver_current_location (drivers far_py 0) = (PyInt 134217728, PyInt 1)"
    "driver_current_location (drivers far_py 1) = (PyInt 134217728, PyInt 0)"
    "rider_current_location (riders far_py 0) = (PyInt 0, PyInt 0)"
    by (simp_all add: far_py_facts bob_py_def john_py_def alice_py_def)
  have "134217728 < sqrt 18014398509481985"
    by (rule real_less_rsqrt) simp
  then have exact: "math_dist (134217728, 0) (0, 0) < math_dist (134217728, 1) (0, 0)"
    by (simp add: math_dist_def)
  have loop: "find_closest_py python far_py (PyInt 0, PyInt 0) [0, 1] None (PyFloat PInf) = Inr (Some 0)"
    using dist_far_bob dist_far_john
    by (simp add: far_py_facts bob_py_def john_py_def num_less_def)
  have fare: "calculate_fare_py python far_py
      \<lparr>start_location = (PyInt 0, PyInt 0), end_location = (PyInt 3, PyInt 4), ride_driver = None,
       ride_rider = 0, ride_vehicle = 0, start_time = None, end_time = None,
       estimated_fare = PyInt 0\<rparr> = Inr (PyFloat (Fin 75))"
    using dist_0_3_4 mul_5_15 round_75
    by (simp add: calculate_fare_py_def far_py_facts car_py_def)
  have match: "fst (find_driver_py python [0, 1] \<lparr>request_rider = 0, destination = (PyInt 3, PyInt 4)\<rparr> far_py)
        = Inr (Some 0, Ride_matched ''Bob'' (PyFloat (Fin 75)))"
    and drv: "ride_driver (rides (snd (find_driver_py python [0, 1]
        \<lparr>request_rider = 0, destination = (PyInt 3, PyInt 4)\<rparr> far_py)) 0) = Some 0"
    using loop fare
    by (simp_all add: find_driver_py_def Ride_init_py_def accept_ride_def set_driver_def Let_def
        far_py_facts alice_py_def bob_py_def)
  have edge_loop: "find_closest_py python edge_py (PyFloat (Fin (- (2 ^ 1023))), PyInt 0) [0] None (PyFloat PInf)
      = Inr None"
    using dist_edge
    by (simp add: edge_py_facts bob_py_def num_less_def)
  have edge: "find_driver_py python [0] \<lparr>request_rider = 0, destination = (PyInt 0, PyInt 0)\<rparr> edge_py
      = (Inr (None, No_available_driver_found), edge_py)"
    using edge_loop by (simp add: find_driver_py_def edge_py_facts alice_py_def)
  show ?thesis
    using locs exact dist_far_bob dist_far_john match drv edge
    by (simp add: far_py_facts edge_py_facts)
qed

text \<open>
  Claim C1, amended. Where every call of \<open>math.dist\<close> on an available driver of the pool
  returns a number \<open>dc x\<close>, the distance as the library computes it: if some available
  driver has a computed distance below infinity and the constructor of the ride does not
  raise, \<open>find_driver\<close> returns a ride whose driver is an available driver of the pool
  with a computed distance below infinity, no available driver having a smaller computed
  distance, and every available driver before it in the pool with a distance below
  infinity having a greater one, so that among equal computed distances the first wins;
  if no available driver has a computed distance below infinity, \<open>find_driver\<close> returns
  \<open>None\<close> and leaves the store as it was.
\<close>

theorem find_driver_py_nearest_computed:
  assumes "\<forall>x\<in>set pool. available s x \<longrightarrow>
             lib_dist A (driver_current_location (drivers s x))
               (rider_current_location (riders s (request_rider req))) = Inr (dc x)"
  shows "((\<exists>x\<in>set pool. available s x \<and> num_less (dc x) (PyFloat PInf))
          \<and> (\<forall>x\<in>set pool. available s x \<longrightarrow>
                (\<exists>r. Ride_init_py A (rider_current_location (riders s (request_rider req)))
                   (destination req) (request_rider req) (driver_vehicle (drivers s x)) s = Inr r))
          \<longrightarrow> (\<exists>ride_ref msg d i.
                 fst (find_driver_py A pool req s) = Inr (Some ride_ref, msg)
                 \<and> ride_driver (rides (snd (find_driver_py A pool req s)) ride_ref) = Some d
                 \<and> i < length pool \<and> pool ! i = d \<and> available s d
                 \<and> num_less (dc d) (PyFloat PInf)
                 \<and> (\<forall>j<length pool. available s (pool ! j) \<longrightarrow> \<not> num_less (dc (pool ! j)) (dc d))
                 \<and> (\<forall>j<i. available s (pool ! j) \<and> num_less (dc (pool ! j)) (PyFloat PInf)
                       \<longrightarrow> num_less (dc d) (dc (pool ! j)))))
       \<and> ((\<forall>x\<in>set pool. available s x \<longrightarrow> \<not> num_less (dc x) (PyFloat PInf))
          \<longrightarrow> find_driver_py A pool req s = (Inr (None, No_available_driver_found), s))"
proof (intro conjI impI)
  let ?loc = "rider_current_location (riders s (request_rider req))"
  assume h: "(\<exists>x\<in>set pool. available s x \<and> num_less (dc x) (PyFloat PInf))
          \<and> (\<forall>x\<in>set pool. available s x \<longrightarrow>
                (\<exists>r. Ride_init_py A ?loc (destination req) (request_rider req)
                   (driver_vehicle (drivers s x)) s = Inr r))"
  from find_closest_py_first_nearest [OF assms] h
  obtain d i where res: "find_closest_py A s ?loc pool None (PyFloat PInf) = Inr (Some d)"
    and i: "i < length pool" "pool ! i = d" and av: "available s d"
    and below: "num_less (dc d) (PyFloat PInf)"
    and least: "\<forall>j<length pool. available s (pool ! j) \<longrightarrow> \<not> num_less (dc (pool ! j)) (dc d)"
    and first: "\<forall>j<i. available s (pool ! j) \<and> num_less (dc (pool ! j)) (PyFloat PInf)
                  \<longrightarrow> num_less (dc d) (dc (pool ! j))"
    by blast
  have "d \<in> set pool" using i by auto
  then obtain r where r: "Ride_init_py A ?loc (destination req) (request_rider req)
      (driver_vehicle (drivers s d)) s = Inr r"
    using h av by blast
  from find_driver_py_some [OF res r]
  obtain msg where "fst (find_driver_py A pool req s) = Inr (Some (next_ride s), msg)"
    and "ride_driver (rides (snd (find_driver_py A pool req s)) (next_ride s)) = Some d"
    by blast
  with i av below least first
  show "\<exists>ride_ref msg d i.
          fst (find_driver_py A pool req s) = Inr (Some ride_ref, msg)
          \<and> ride_driver (rides (snd (find_driver_py A pool req s)) ride_ref) = Some d
          \<and> i < length pool \<and> pool ! i = d \<and> available s d
          \<and> num_less (dc d) (PyFloat PInf)
          \<and> (\<forall>j<length pool. available s (pool ! j) \<longrightarrow> \<not> num_less (dc (pool ! j)) (dc d))
          \<and> (\<forall>j<i. available s (pool ! j) \<and> num_less (dc (pool ! j)) (PyFloat PInf)
                \<longrightarrow> num_less (dc d) (dc (pool ! j)))"
    by blast
next
  assume "\<forall>x\<in>set pool. available s x \<longrightarrow> \<not> num_less (dc x) (PyFloat PInf)"
  from find_closest_py_no_candidate [OF assms this]
  show "find_driver_py A pool req s = (Inr (None, No_available_driver_found), s)"
    by (simp add: find_driver_py_def)
qed

text \<open>
  In the scenario Bob, at the computed distance 1.0, is matched before John, at the
  double nearest to \<open>sqrt 500\<close>; the lone driver at the computed distance \<open>inf\<close> is not
  matched.
\<close>

theorem find_driver_py_nearest_computed_witness:
  "available demo_py 0 \<and> available demo_py 1
   \<and> lib_dist python (driver_current_location (drivers demo_py 0))
        (rider_current_location (riders demo_py 0)) = Inr (PyFloat (Fin 1))
   \<and> lib_dist python (driver_current_location (drivers demo_py 1))
        (rider_current_location (riders demo_py 0)) = Inr (PyFloat (Fin (6293971818901970 / 2 ^ 48)))
   \<and> num_less (PyFloat (Fin 1)) (PyFloat PInf)
   \<and> (\<exists>msg. fst (find_driver_py python [0, 1] \<lparr>request_rider = 0, destination = (PyInt 13, PyInt 14)\<rparr> demo_py)
         = Inr (Some 0, msg))
   \<and> ride_driver (rides (snd (find_driver_py python [0, 1]
         \<lparr>request_rider = 0, destination = (PyInt 13, PyInt 14)\<rparr> demo_py)) 0) = Some 0
   \<and> available edge_py 0
   \<and> lib_dist python (driver_current_location (drivers edge_py 0))
        (rider_current_location (riders edge_py 0)) = Inr (PyFloat PInf)
   \<and> \<not> num_less (PyFloat PInf) (PyFloat PInf)
   \<and> find_driver_py python [0] \<lparr>request_rider = 0, destination = (PyInt 0, PyInt 0)\<rparr> edge_py
       = (Inr (None, No_available_driver_found), edge_py)"
proof -
  let ?req = "\<lparr>request_rider = 0, destination = (PyInt 13, PyInt 14)\<rparr> :: num ride_request"
  let ?dc = "\<lambda>x::nat. if x = 0 then PyFloat (Fin 1) else PyFloat (Fin (6293971818901970 / 2 ^ 48))"
  have d0: "lib_dist python (driver_current_location (drivers demo_py 0))
        (rider_current_location (riders demo_py 0)) = Inr (PyFloat (Fin 1))"
    using dist_bob by (simp add: demo_py_facts bob_py_def alice_py_def)
  have d1: "lib_dist python (driver_current_location (drivers demo_py 1))
        (rider_current_location (riders demo_py 0)) = Inr (PyFloat (Fin (6293971818901970 / 2 ^ 48)))"
    using dist_john by (simp add: demo_py_facts john_py_def alice_py_def)
  have dists: "\<forall>x\<in>set [0, 1]. available demo_py x \<longrightarrow>
      lib_dist python (driver_current_location (drivers demo_py x))
        (rider_current_location (riders demo_py (request_rider ?req))) = Inr (?dc x)"
    using d0 d1 by simp
  have some: "\<exists>x\<in>set [0, 1]. available demo_py x \<and> num_less (?dc x) (PyFloat PInf)"
    by (simp add: demo_py_facts num_less_def)
  have fare: "calculate_fare_py python demo_py
      \<lparr>start_location = (PyInt 10, PyInt 10), end_location = (PyInt 13, PyInt 14), ride_driver = None,
       ride_rider = 0, ride_vehicle = v, start_time = None, end_time = None,
       estimated_fare = PyInt 0\<rparr> = Inr (PyFloat (Fin (if v = 0 then 75 else 40)))" for v
    using dist_3_4 mul_5_15 mul_5_8 round_75 round_40
    by (simp add: calculate_fare_py_def demo_py_facts car_py_def bike_py_def)
  have init: "\<forall>x\<in>set [0, 1]. available demo_py x \<longrightarrow>
      (\<exists>r. Ride_init_py python (rider_current_location (riders demo_py (request_rider ?req)))
         (destination ?req) (request_rider ?req) (driver_vehicle (drivers demo_py x)) demo_py = Inr r)"
    by (simp add: Ride_init_py_def Let_def fare demo_py_facts alice_py_def)
  from find_driver_py_nearest_computed [OF dists] some init
  obtain ride_ref msg d i where
    ret: "fst (find_driver_py python [0, 1] ?req demo_py) = Inr (Some ride_ref, msg)"
    and drv: "ride_driver (rides (snd (find_driver_py python [0, 1] ?req demo_py)) ride_ref) = Some d"
    and i: "i < length [0, 1 :: nat]" "[0, 1] ! i = d"
    and first: "\<forall>j<i. available demo_py ([0, 1] ! j) \<and> num_less (?dc ([0, 1] ! j)) (PyFloat PInf)
                  \<longrightarrow> num_less (?dc d) (?dc ([0, 1] ! j))"
    by blast
  have "i = 0"
  proof (rule ccontr)
    assume "i \<noteq> 0"
    then have "i = 1" using i(1) by simp
    then have "d = 1" and "num_less (?dc d) (?dc 0)"
      using i(2) first demo_py_facts(7) [of 0] by (auto simp: num_less_def)
    then show False by (simp add: num_less_def)
  qed
  then have d: "d = 0" using i(2) by simp
  have "\<exists>r. Ride_init_py python (rider_current_location (riders demo_py (request_rider ?req)))
         (destination ?req) (request_rider ?req) (driver_vehicle (drivers demo_py 0)) demo_py = Inr r"
    using init demo_py_facts(7) [of 0] by simp
  have ref: "ride_ref = 0"
    using ret by (auto simp: find_driver_py_def Ride_init_py_def Let_def demo_py_facts
        split: sum.splits option.splits)
  have e0: "lib_dist python (driver_current_location (drivers edge_py 0))
        (rider_current_location (riders edge_py 0)) = Inr (PyFloat PInf)"
    using dist_edge by (simp add: edge_py_facts bob_py_def alice_py_def)
  let ?ereq = "\<lparr>request_rider = 0, destination = (PyInt 0, PyInt 0)\<rparr> :: num ride_request"
  have edists: "\<forall>x\<in>set [0]. available edge_py x \<longrightarrow>
      lib_dist python (driver_current_location (drivers edge_py x))
        (rider_current_location (riders edge_py (request_rider ?ereq))) = Inr ((\<lambda>_. PyFloat PInf) x)"
    using e0 by simp
  have enone: "\<forall>x\<in>set [0]. available edge_py x \<longrightarrow> \<not> num_less ((\<lambda>_. PyFloat PInf) x) (PyFloat PInf)"
    by (simp add: num_less_def)
  from find_driver_py_nearest_computed [OF edists] enone
  have edge: "find_driver_py python [0] ?ereq edge_py = (Inr (None, No_available_driver_found), edge_py)"
    by blast
  show ?thesis
    using d0 d1 ret drv d ref e0 edge
    by (simp add: demo_py_facts edge_py_facts num_less_def)
qed

subsection \<open>Fare on Python's numbers\<close>

lemma end_ride_py_rides:
  "rides (snd (end_ride_py A self rt now s)) =
     (rides s)(self := (rides s self)\<lparr>end_time := Some now\<rparr>)"
  by (simp add: end_ride_py_def add_rating_def Let_def split: sum.split option.split)

text \<open>
  Claim C2, as the spec states it, fails on Python's numbers. For a ride by car from
  (0, 0) to (8021857, 5877653) the Euclidean distance times the rate 15, rounded to two
  decimals, is 149170452.05. The constructor computes the distance, the product and the
  rounding in double arithmetic: the product is the double 149170452.055 and a little,
  and the fare stored is the double nearest to 149170452.06.
\<close>

theorem fare_exact_formula_counterexample:
  "rider_current_location (riders far_py 0) = (PyInt 0, PyInt 0)
   \<and> rate (vehicles far_py (driver_vehicle (drivers far_py 0))) = PyInt 15
   \<and> py_round (math_dist (0, 0) (8021857, 5877653) * 15) 2 = 14917045205 / 100
   \<and> fst (find_driver_py python [0, 1]
         \<lparr>request_rider = 0, destination = (PyInt 8021857, PyInt 5877653)\<rparr> far_py)
       = Inr (Some 0, Ride_matched ''Bob'' (PyFloat (Fin (5005329790056530 / 2 ^ 25))))
   \<and> start_location (rides (snd (find_driver_py python [0, 1]
         \<lparr>request_rider = 0, destination = (PyInt 8021857, PyInt 5877653)\<rparr> far_py)) 0)
       = (PyInt 0, PyInt 0)
   \<and> end_location (rides (snd (find_driver_py python [0, 1]
         \<lparr>request_rider = 0, destination = (PyInt 8021857, PyInt 5877653)\<rparr> far_py)) 0)
       = (PyInt 8021857, PyInt 5877653)
   \<and> estimated_fare (rides (snd (find_driver_py python [0, 1]
         \<lparr>request_rider = 0, destination = (PyInt 8021857, PyInt 5877653)\<rparr> far_py)) 0)
       = PyFloat (Fin (5005329790056530 / 2 ^ 25))
   \<and> \<bar>5005329790056530 / 2 ^ 25 - 14917045206 / 100\<bar> < (1 / 10 ^ 8 :: real)
   \<and> (5005329790056530 / 2 ^ 25 :: real) \<noteq> 14917045205 / 100"
proof -
  have setting: "rider_current_location (riders far_py 0) = (PyInt 0, PyInt 0)"
    "rate (vehicles far_py (driver_vehicle (drivers far_py 0))) = PyInt 15"
    by (simp_all add: far_py_facts alice_py_def bob_py_def car_py_def)
  have fare: "calculate_fare_py python far_py
      \<lparr>start_location = (PyInt 0, PyInt 0), end_location = (PyInt 8021857, PyInt 5877653),
       ride_driver = None, ride_rider = 0, ride_vehicle = 0, start_time = None, end_time = None,
       estimated_fare = PyInt 0\<rparr> = Inr (PyFloat (Fin (5005329790056530 / 2 ^ 25)))"
    using dist_long mul_long round_long
    by (simp add: calculate_fare_py_def far_py_facts car_py_def)
  have match: "fst (find_driver_py python [0, 1]
         \<lparr>request_rider = 0, destination = (PyInt 8021857, PyInt 5877653)\<rparr> far_py)
       = Inr (Some 0, Ride_matched ''Bob'' (PyFloat (Fin (5005329790056530 / 2 ^ 25))))"
    and ride: "rides (snd (find_driver_py python [0, 1]
         \<lparr>request_rider = 0, destination = (PyInt 8021857, PyInt 5877653)\<rparr> far_py)) 0
       = \<lparr>start_location = (PyInt 0, PyInt 0), end_location = (PyInt 8021857, PyInt 5877653),
          ride_driver = Some 0, ride_rider = 0, ride_vehicle = 0, start_time = None,
          end_time = None, estimated_fare = PyFloat (Fin (5005329790056530 / 2 ^ 25))\<rparr>"
    using far_py_closest fare
    by (simp_all add: find_driver_py_def Ride_init_py_def accept_ride_def set_driver_def Let_def
        far_py_facts alice_py_def bob_py_def)
  have near: "\<bar>5005329790056530 / 2 ^ 25 - 14917045206 / 100\<bar> < (1 / 10 ^ 8 :: real)"
    and differ: "(5005329790056530 / 2 ^ 25 :: real) \<noteq> 14917045205 / 100"
    by simp_all
  show ?thesis
    using setting exact_fare_long match ride near differ by simp
qed

text \<open>
  Claim C2, amended. The fare of a ride is what \<open>round(math.dist(start, end) * rate, 2)\<close>
  returns in Python's arithmetic, computed by the constructor from the vehicle's rate
  at that moment; when one of the three calls raises, no ride is created. No later call
  writes the field: \<open>accept_ride\<close>, \<open>start_ride\<close> and \<open>end_ride\<close> leave the fare of
  every ride as it was. \<open>end_ride\<close> charges the stored value, whatever the clock, the
  locations and the vehicle's rate are by then: when the rider's wallet covers it, the
  wallet becomes Python's difference of the wallet and the stored fare, and the driver's
  wallet Python's sum of the wallet and the stored fare.
\<close>

theorem estimated_fare_python_fixed_at_creation:
  "(lib_dist A a b = Inr dist' \<and> lib_mul A dist' (rate (vehicles s v)) = Inr product
      \<and> lib_round A product 2 = Inr fare \<longrightarrow>
      Ride_init_py A a b r v s
        = Inr (next_ride s,
               s\<lparr>rides := (rides s)(next_ride s :=
                    \<lparr>start_location = a, end_location = b, ride_driver = None, ride_rider = r,
                     ride_vehicle = v, start_time = None, end_time = None,
                     estimated_fare = fare\<rparr>),
                 next_ride := Suc (next_ride s)\<rparr>))
   \<and> estimated_fare (rides (accept_ride d x t) y) = estimated_fare (rides t y)
   \<and> estimated_fare (rides (start_ride x now t) y) = estimated_fare (rides t y)
   \<and> estimated_fare (rides (snd (end_ride_py A x rt now t)) y) = estimated_fare (rides t y)
   \<and> (num_le (estimated_fare (rides t x)) (rider_wallet (riders t (ride_rider (rides t x))))
        \<and> lib_sub A (rider_wallet (riders t (ride_rider (rides t x)))) (estimated_fare (rides t x)) = Inr w
        \<longrightarrow> rider_wallet (riders (snd (end_ride_py A x rt now t)) (ride_rider (rides t x))) = w)
   \<and> (num_le (estimated_fare (rides t x)) (rider_wallet (riders t (ride_rider (rides t x))))
        \<and> lib_sub A (rider_wallet (riders t (ride_rider (rides t x)))) (estimated_fare (rides t x)) = Inr w
        \<and> ride_driver (rides t x) = Some d
        \<and> lib_add A (driver_wallet (drivers t d)) (estimated_fare (rides t x)) = Inr dw
        \<longrightarrow> fst (end_ride_py A x rt now t) = Inr (Ride_ended (estimated_fare (rides t x)))
            \<and> driver_wallet (drivers (snd (end_ride_py A x rt now t)) d) = dw)"
proof -
  have "Ride_init_py A a b r v s
        = Inr (next_ride s,
               s\<lparr>rides := (rides s)(next_ride s :=
                    \<lparr>start_location = a, end_location = b, ride_driver = None, ride_rider = r,
                     ride_vehicle = v, start_time = None, end_time = None,
                     estimated_fare = fare\<rparr>),
                 next_ride := Suc (next_ride s)\<rparr>)"
    if "lib_dist A a b = Inr dist'" "lib_mul A dist' (rate (vehicles s v)) = Inr product"
      "lib_round A product 2 = Inr fare"
    using that by (simp add: Ride_init_py_def calculate_fare_py_def Let_def)
  moreover have "estimated_fare (rides (accept_ride d x t) y) = estimated_fare (rides t y)"
    by (simp add: accept_ride_def set_driver_def)
  moreover have "estimated_fare (rides (start_ride x now t) y) = estimated_fare (rides t y)"
    by (simp add: start_ride_def)
  moreover have "estimated_fare (rides (snd (end_ride_py A x rt now t)) y) = estimated_fare (rides t y)"
    by (simp add: end_ride_py_rides)
  moreover have "rider_wallet (riders (snd (end_ride_py A x rt now t)) (ride_rider (rides t x))) = w"
    if "num_le (estimated_fare (rides t x)) (rider_wallet (riders t (ride_rider (rides t x))))"
      "lib_sub A (rider_wallet (riders t (ride_rider (rides t x)))) (estimated_fare (rides t x)) = Inr w"
    using that by (simp add: end_ride_py_def add_rating_def Let_def split: sum.split option.split)
  moreover have "fst (end_ride_py A x rt now t) = Inr (Ride_ended (estimated_fare (rides t x)))
      \<and> driver_wallet (drivers (snd (end_ride_py A x rt now t)) d) = dw"
    if "num_le (estimated_fare (rides t x)) (rider_wallet (riders t (ride_rider (rides t x))))"
      "lib_sub A (rider_wallet (riders t (ride_rider (rides t x)))) (estimated_fare (rides t x)) = Inr w"
      "ride_driver (rides t x) = Some d"
      "lib_add A (driver_wallet (drivers t d)) (estimated_fare (rides t x)) = Inr dw"
    using that by (simp add: end_ride_py_def add_rating_def Let_def)
  ultimately show ?thesis by blast
qed

text \<open>
  The three calls for the ride to (8021857, 5877653), and the ride of the scenario at the
  fare 75.0: ending it leaves 425.0 in Alice's wallet and 75.0 in Bob's.
\<close>

theorem estimated_fare_python_fixed_at_creation_witness:
  "lib_dist python (PyInt 0, PyInt 0) (PyInt 8021857, PyInt 5877653)
     = Inr (PyFloat (Fin (5339018442548008 / 2 ^ 29)))
   \<and> lib_mul python (PyFloat (Fin (5339018442548008 / 2 ^ 29))) (rate (vehicles far_py 0))
       = Inr (PyFloat (Fin (5005329789888758 / 2 ^ 25)))
   \<and> lib_round python (PyFloat (Fin (5005329789888758 / 2 ^ 25))) 2
       = Inr (PyFloat (Fin (5005329790056530 / 2 ^ 25)))
   \<and> Ride_init_py python (PyInt 0, PyInt 0) (PyInt 8021857, PyInt 5877653) 0 0 far_py
       = Inr (next_ride far_py,
              far_py\<lparr>rides := (rides far_py)(next_ride far_py :=
                   \<lparr>start_location = (PyInt 0, PyInt 0),
                    end_location = (PyInt 8021857, PyInt 5877653), ride_driver = None,
                    ride_rider = 0, ride_vehicle = 0, start_time = None, end_time = None,
                    estimated_fare = PyFloat (Fin (5005329790056530 / 2 ^ 25))\<rparr>),
                next_ride := Suc (next_ride far_py)\<rparr>)
   \<and> num_le (estimated_fare (rides started_py 0))
        (rider_wallet (riders started_py (ride_rider (rides started_py 0))))
   \<and> lib_sub python (rider_wallet (riders started_py (ride_rider (rides started_py 0))))
        (estimated_fare (rides started_py 0)) = Inr (PyFloat (Fin 425))
   \<and> ride_driver (rides started_py 0) = Some 0
   \<and> lib_add python (driver_wallet (drivers started_py 0)) (estimated_fare (rides started_py 0))
       = Inr (PyFloat (Fin 75))
   \<and> fst (end_ride_py python 0 5 2 started_py) = Inr (Ride_ended (PyFloat (Fin 75)))
   \<and> rider_wallet (riders (snd (end_ride_py python 0 5 2 started_py)) 0) = PyFloat (Fin 425)
   \<and> driver_wallet (drivers (snd (end_ride_py python 0 5 2 started_py)) 0) = PyFloat (Fin 75)"
proof -
  have rate: "rate (vehicles far_py 0) = PyInt 15"
    by (simp add: far_py_facts car_py_def)
  have mul: "lib_mul python (PyFloat (Fin (5339018442548008 / 2 ^ 29))) (rate (vehicles far_py 0))
       = Inr (PyFloat (Fin (5005329789888758 / 2 ^ 25)))"
    using mul_long by (simp add: rate)
  have le: "num_le (estimated_fare (rides started_py 0))
        (rider_wallet (riders started_py (ride_rider (rides started_py 0))))"
    by (simp add: started_py_facts num_le_def)
  have sub: "lib_sub python (rider_wallet (riders started_py (ride_rider (rides started_py 0))))
        (estimated_fare (rides started_py 0)) = Inr (PyFloat (Fin 425))"
    using sub_500_75 by (simp add: started_py_facts)
  have drv: "ride_driver (rides started_py 0) = Some 0"
    by (simp add: started_py_facts)
  have add: "lib_add python (driver_wallet (drivers started_py 0)) (estimated_fare (rides started_py 0))
       = Inr (PyFloat (Fin 75))"
    using add_0_75 by (simp add: started_py_facts)
  show ?thesis
    using dist_long mul round_long le sub drv add
      estimated_fare_python_fixed_at_creation
        [where A = python and a = "(PyInt 0, PyInt 0)" and b = "(PyInt 8021857, PyInt 5877653)"
          and dist' = "PyFloat (Fin (5339018442548008 / 2 ^ 29))" and s = far_py and v = 0
          and product = "PyFloat (Fin (5005329789888758 / 2 ^ 25))"
          and fare = "PyFloat (Fin (5005329790056530 / 2 ^ 25))" and r = 0
          and t = started_py and x = 0 and d = 0 and rt = 5 and now = 2
          and w = "PyFloat (Fin 425)" and dw = "PyFloat (Fin 75)"]
    by (simp add: started_py_facts)
qed

end
